theory Spec2Isabelle
  imports Complex_Main "HOL-Library.Sublist"
begin

section \<open>Data model\<close>

text \<open>
  A parsed timestamp as the surface page observes it: the calendar fields that
  \<^verbatim>\<open>.dt.month\<close> and \<^verbatim>\<open>.dt.hour\<close> read, with the ranges a calendar timestamp has.
  The fields are year, month, day, hour, minute, second.
\<close>

typedef stamp =
  "{(y :: int, mo :: nat, d :: nat, h :: nat, mi :: nat, s :: nat).
      1 \<le> mo \<and> mo \<le> 12 \<and> 1 \<le> d \<and> d \<le> 31 \<and> h < 24 \<and> mi < 60 \<and> s < 60}"
  by (rule exI [of _ "(1970, 1, 1, 0, 0, 0)"]) simp

setup_lifting type_definition_stamp

lift_definition dt_month :: "stamp \<Rightarrow> nat" is "\<lambda>(y, mo, d, h, mi, s). mo" .

lift_definition dt_hour :: "stamp \<Rightarrow> nat" is "\<lambda>(y, mo, d, h, mi, s). h" .

lift_definition mk_stamp :: "int \<Rightarrow> nat \<Rightarrow> nat \<Rightarrow> nat \<Rightarrow> stamp" is
  "\<lambda>y mo d h. if 1 \<le> mo \<and> mo \<le> 12 \<and> 1 \<le> d \<and> d \<le> 31 \<and> h < 24
     then (y, mo, d, h, 0, 0) else (1970, 1, 1, 0, 0, 0)"
  by simp

text \<open>Two timestamps are equal when their fields are.\<close>

instantiation stamp :: equal
begin

definition equal_stamp :: "stamp \<Rightarrow> stamp \<Rightarrow> bool" where
  "equal_stamp a b \<longleftrightarrow> Rep_stamp a = Rep_stamp b"

instance
  by standard (simp add: equal_stamp_def Rep_stamp_inject)

end

text \<open>
  A float64 that is not NaN: a finite value, given by the rational it is exactly, or an
  infinity. NaN is the missing value of pandas and is \<open>None\<close> throughout. What float64
  arithmetic makes of such values (rounding, overflow to an infinity, NaN) is not
  computed here: it is a parameter, see \<open>pandas\<close> below.
\<close>

datatype f64 = Finite rat | PosInf | NegInf

text \<open>
  A column of a data frame has a dtype: float64 (with NaN as \<open>None\<close>), integers (a cell
  is its exact value; \<open>None\<close> where pandas has no value), objects (strings, with
  \<open>None\<close> for a missing value) or timestamps (with NaT as \<open>None\<close>).
\<close>

datatype column =
    NumCol "f64 option list"
  | IntCol "int option list"
  | ObjCol "string option list"
  | TimeCol "stamp option list"

text \<open>
  A column label is a string or some other object (an integer, say), which has no
  method \<^verbatim>\<open>lower\<close>. pandas allows a label to occur more than once.
\<close>

datatype label = Str string | Obj nat

text \<open>
  A data frame: the length of its index and its labelled columns, in column order.
  \<^verbatim>\<open>pd.DataFrame()\<close> has no rows and no columns.
\<close>

record table =
  nrows :: nat
  cols :: "(label \<times> column) list"

definition DataFrame :: table where
  "DataFrame = \<lparr>nrows = 0, cols = []\<rparr>"

definition columns :: "table \<Rightarrow> label list" where
  "columns df = map fst (cols df)"

fun col_len :: "column \<Rightarrow> nat" where
  "col_len (NumCol xs) = length xs"
| "col_len (IntCol xs) = length xs"
| "col_len (ObjCol xs) = length xs"
| "col_len (TimeCol xs) = length xs"

text \<open>\<^verbatim>\<open>df.empty\<close>: one of the two axes has length 0.\<close>

definition empty :: "table \<Rightarrow> bool" where
  "empty df \<longleftrightarrow> nrows df = 0 \<or> cols df = []"

text \<open>
  Python exceptions, by whether \<^verbatim>\<open>except Exception\<close> catches them: an instance of
  \<^verbatim>\<open>Exception\<close>, or one that derives from \<^verbatim>\<open>BaseException\<close> only
  (\<^verbatim>\<open>KeyboardInterrupt\<close>, \<^verbatim>\<open>SystemExit\<close>, \<^verbatim>\<open>GeneratorExit\<close>). The string is the class name.
\<close>

datatype py_exception = Exception string | BaseException string

text \<open>
  What a call of the upstream \<^verbatim>\<open>load_master\<close> does: it returns a data frame, it returns
  an object that is not a data frame (it has no attribute \<^verbatim>\<open>columns\<close>), or it raises.
\<close>

datatype load_result = Returns table | Returns_object | Raises py_exception

text \<open>
  The parts of pandas and numpy whose results are not computed in this theory; they are
  a parameter of every function that calls them.
  \<^item> \<open>to_datetime_of c\<close> is \<^verbatim>\<open>pd.to_datetime(c, errors="coerce")\<close> on a column: the class
    name of the exception it raises (it raises \<^verbatim>\<open>ValueError\<close> on mixed UTC offsets, for
    one), or else for each position the timestamp read there, \<open>None\<close> (NaT) for a
    value that does not parse.
  \<^item> \<open>mean_of vs\<close> is the float64 mean that \<^verbatim>\<open>aggfunc="mean"\<close> computes of the values
    \<open>vs\<close>, none of them NaN and at least one (the cells of an integer column are
    converted to float64 first, which rounds the large ones); \<open>None\<close> when the result
    is NaN.
  \<^item> \<open>interp_of p v q w x\<close> is the float64 value of \<^verbatim>\<open>np.interp\<close> at \<open>x\<close> strictly
    between the neighbouring points \<open>(p, v)\<close> and \<open>(q, w)\<close>; \<open>None\<close> when it is NaN.
\<close>

record pandas =
  to_datetime_of :: "column \<Rightarrow> string + (nat \<Rightarrow> stamp option)"
  mean_of :: "f64 list \<Rightarrow> f64 option"
  interp_of :: "nat \<Rightarrow> f64 \<Rightarrow> nat \<Rightarrow> f64 \<Rightarrow> nat \<Rightarrow> f64 option"

section \<open>Data preparation: \<^verbatim>\<open>get_surface_data\<close>\<close>

text \<open>\<^verbatim>\<open>str.lower\<close> on the ASCII letters; every other byte is left as it is.\<close>

definition lower_char :: "char \<Rightarrow> char" where
  "lower_char c =
     (let n = (of_char c :: nat) in if 65 \<le> n \<and> n \<le> 90 then char_of (n + 32) else c)"

definition lower :: "string \<Rightarrow> string" where
  "lower s = map lower_char s"

text \<open>
  \<^verbatim>\<open>df[name]\<close>: the column when the label occurs once, a frame of the columns that carry
  it when it occurs more often, KeyError when it does not occur.
\<close>

datatype selection = Series column | Sub "column list"

definition getitem :: "table \<Rightarrow> label \<Rightarrow> py_exception + selection" where
  "getitem df name =
     (case filter (\<lambda>p. fst p = name) (cols df) of
        [] \<Rightarrow> Inl (Exception ''KeyError'')
      | [p] \<Rightarrow> Inr (Series (snd p))
      | p # q # ps \<Rightarrow> Inr (Sub (map snd (p # q # ps))))"

text \<open>
  \<^verbatim>\<open>df[name] = column\<close>: replaces the column wherever the label occurs, or appends it.
\<close>

definition setitem :: "table \<Rightarrow> label \<Rightarrow> column \<Rightarrow> table" where
  "setitem df name c =
     df\<lparr>cols :=
          (if name \<in> set (columns df)
           then map (\<lambda>p. if fst p = name then (name, c) else p) (cols df)
           else cols df @ [(name, c)])\<rparr>"

text \<open>
  \<^verbatim>\<open>pd.to_datetime(df[name], errors="coerce")\<close>. Given a frame (a repeated label) it
  tries to assemble timestamps from columns named year, month and day, and raises
  ValueError, as no label that reaches it here is one of these.
\<close>

fun to_datetime :: "pandas \<Rightarrow> selection \<Rightarrow> py_exception + stamp option list" where
  "to_datetime pd (Series c) =
     (case to_datetime_of pd c of
        Inl name \<Rightarrow> Inl (Exception name)
      | Inr f \<Rightarrow> Inr (map f [0..<col_len c]))"
| "to_datetime pd (Sub cs) = Inl (Exception ''ValueError'')"

text \<open>
  The list comprehension of lines 29 to 31: \<^verbatim>\<open>c.lower()\<close> is called on every label, and
  raises AttributeError on a label that is not a string.
\<close>

fun datetime_cols :: "label list \<Rightarrow> py_exception + string list" where
  "datetime_cols [] = Inr []"
| "datetime_cols (Obj n # ls) = Inl (Exception ''AttributeError'')"
| "datetime_cols (Str c # ls) =
     (case datetime_cols ls of
        Inl e \<Rightarrow> Inl e
      | Inr r \<Rightarrow>
          Inr (if sublist ''date'' (lower c) \<or> sublist ''time'' (lower c) then c # r else r))"

text \<open>Lines 26 to 37: the \<^verbatim>\<open>datetime\<close> column is parsed, found by name, or all NaT.\<close>

definition ensure_datetime :: "pandas \<Rightarrow> table \<Rightarrow> py_exception + table" where
  "ensure_datetime pd df =
     (if Str ''datetime'' \<in> set (columns df) then
        (case getitem df (Str ''datetime'') of
           Inl e \<Rightarrow> Inl e
         | Inr sel \<Rightarrow>
             (case to_datetime pd sel of
                Inl e \<Rightarrow> Inl e
              | Inr ts \<Rightarrow> Inr (setitem df (Str ''datetime'') (TimeCol ts))))
      else
        (case datetime_cols (columns df) of
           Inl e \<Rightarrow> Inl e
         | Inr (c0 # _) \<Rightarrow>
             (case getitem df (Str c0) of
                Inl e \<Rightarrow> Inl e
              | Inr sel \<Rightarrow>
                  (case to_datetime pd sel of
                     Inl e \<Rightarrow> Inl e
                   | Inr ts \<Rightarrow> Inr (setitem df (Str ''datetime'') (TimeCol ts))))
         | Inr [] \<Rightarrow> Inr (setitem df (Str ''datetime'') (TimeCol (replicate (nrows df) None)))))"

text \<open>
  \<^verbatim>\<open>df.dropna(subset=["datetime"])\<close>: a new frame with the rows whose \<^verbatim>\<open>datetime\<close> is
  not missing (in every column of that label). \<open>keep flags xs\<close> are the entries of
  \<open>xs\<close> at the positions where the flag holds.
\<close>

definition keep :: "bool list \<Rightarrow> 'a list \<Rightarrow> 'a list" where
  "keep flags xs = map snd (filter fst (zip flags xs))"

fun notna :: "column \<Rightarrow> bool list" where
  "notna (NumCol xs) = map (\<lambda>x. x \<noteq> None) xs"
| "notna (IntCol xs) = map (\<lambda>x. x \<noteq> None) xs"
| "notna (ObjCol xs) = map (\<lambda>x. x \<noteq> None) xs"
| "notna (TimeCol xs) = map (\<lambda>x. x \<noteq> None) xs"

fun keep_col :: "bool list \<Rightarrow> column \<Rightarrow> column" where
  "keep_col flags (NumCol xs) = NumCol (keep flags xs)"
| "keep_col flags (IntCol xs) = IntCol (keep flags xs)"
| "keep_col flags (ObjCol xs) = ObjCol (keep flags xs)"
| "keep_col flags (TimeCol xs) = TimeCol (keep flags xs)"

fun complete_rows :: "nat \<Rightarrow> selection \<Rightarrow> bool list" where
  "complete_rows n (Series c) = notna c"
| "complete_rows n (Sub cs) =
     map (\<lambda>i. list_all (\<lambda>c. i < col_len c \<and> notna c ! i) cs) [0..<n]"

definition dropna :: "table \<Rightarrow> label \<Rightarrow> py_exception + table" where
  "dropna df name =
     (case getitem df name of
        Inl e \<Rightarrow> Inl e
      | Inr sel \<Rightarrow>
          (let flags = complete_rows (nrows df) sel
           in Inr \<lparr>nrows = length (filter id flags),
                   cols = map (\<lambda>(n, c'). (n, keep_col flags c')) (cols df)\<rparr>))"

text \<open>Lines 41 to 47: the price column, by priority.\<close>

definition choose_price :: "table \<Rightarrow> string option" where
  "choose_price df =
     (if Str ''standardized_price'' \<in> set (columns df) then Some ''standardized_price''
      else if Str ''charge'' \<in> set (columns df) then Some ''charge''
      else None)"

text \<open>
  The body of the \<^verbatim>\<open>try\<close> block, lines 23 to 49. On an object that is not a data frame
  the first use, \<^verbatim>\<open>df.columns\<close>, raises AttributeError.
\<close>

definition try_block :: "pandas \<Rightarrow> load_result \<Rightarrow> py_exception + (table \<times> string option)" where
  "try_block pd r =
     (case r of
        Raises e \<Rightarrow> Inl e
      | Returns_object \<Rightarrow> Inl (Exception ''AttributeError'')
      | Returns df \<Rightarrow>
          (case ensure_datetime pd df of
             Inl e \<Rightarrow> Inl e
           | Inr df1 \<Rightarrow>
               (case dropna df1 (Str ''datetime'') of
                  Inl e \<Rightarrow> Inl e
                | Inr df2 \<Rightarrow> Inr (df2, choose_price df2))))"

text \<open>
  \<^verbatim>\<open>get_surface_data\<close>, lines 22 to 53: \<^verbatim>\<open>except Exception\<close> turns an instance of
  \<^verbatim>\<open>Exception\<close> into the empty frame and no price column; any other exception passes.
\<close>

definition get_surface_data :: "pandas \<Rightarrow> load_result \<Rightarrow> py_exception + (table \<times> string option)" where
  "get_surface_data pd r =
     (case try_block pd r of
        Inl (Exception e) \<Rightarrow> Inr (DataFrame, None)
      | Inl (BaseException e) \<Rightarrow> Inl (BaseException e)
      | Inr res \<Rightarrow> Inr res)"

section \<open>Surface builder: \<^verbatim>\<open>build_surface_figure\<close>\<close>

text \<open>
  The figure handed to the page: the blank figure of lines 66 to 72 (no trace, both axes
  hidden), or the surface trace of lines 92 to 109 with its three arrays. The styling is
  the same for every surface and is not part of the value. \<open>Unmodelled\<close> stands for
  what the code does on a price column that this theory does not follow pandas through
  (a column of timestamps, which pandas averages, an object column with no value at all,
  or a repeated price label); nothing is stated about it.
\<close>

datatype figure =
    Blank
  | Surface (x_vals: "int list") (y_vals: "int list") (z_vals: "f64 list list")
  | Unmodelled

text \<open>
  \<^verbatim>\<open>df["datetime"].dt.month\<close> and \<^verbatim>\<open>.dt.hour\<close>: a KeyError without the column, an
  AttributeError when it is a frame or does not hold timestamps.
\<close>

definition dt_field :: "(stamp \<Rightarrow> nat) \<Rightarrow> table \<Rightarrow> py_exception + column" where
  "dt_field f df =
     (case getitem df (Str ''datetime'') of
        Inl e \<Rightarrow> Inl e
      | Inr (Series (TimeCol ts)) \<Rightarrow> Inr (IntCol (map (map_option (\<lambda>s. int (f s))) ts))
      | Inr _ \<Rightarrow> Inl (Exception ''AttributeError''))"

text \<open>The result of \<^verbatim>\<open>pivot_table\<close>: row labels, column labels, and the cells by row.\<close>

record pivot =
  index :: "int list"
  pcolumns :: "int list"
  pvalues :: "f64 option list list"

fun somes :: "'a option list \<Rightarrow> 'a list" where
  "somes [] = []"
| "somes (None # xs) = somes xs"
| "somes (Some v # xs) = v # somes xs"

text \<open>
  The mean of pandas skips missing values; with nothing left it is NaN, and otherwise it
  is the float64 mean of what is left.
\<close>

definition mean :: "pandas \<Rightarrow> f64 option list \<Rightarrow> f64 option" where
  "mean pd xs = (let vs = somes xs in if vs = [] then None else mean_of pd vs)"

text \<open>A row of the frame as the grouping sees it; a row with a missing key is in no group.\<close>

fun keyed :: "int option \<times> int option \<times> f64 option \<Rightarrow> ((int \<times> int) \<times> f64 option) option" where
  "keyed (Some h, Some m, p) = Some ((h, m), p)"
| "keyed _ = None"

text \<open>
  The cells of a numeric column as they are handed to the mean. A cell of an integer
  column is handed over as the whole number it is: its conversion to float64 is part of
  \<open>mean_of\<close>.
\<close>

fun price_values :: "column \<Rightarrow> f64 option list option" where
  "price_values (NumCol ps) = Some ps"
| "price_values (IntCol qs) = Some (map (map_option (\<lambda>i. Finite (of_int i))) qs)"
| "price_values (ObjCol xs) = None"
| "price_values (TimeCol ts) = None"

text \<open>
  \<^verbatim>\<open>df.pivot_table(index=i, columns=c, values=v, aggfunc="mean")\<close> with the defaults of
  pandas (\<^verbatim>\<open>dropna=True\<close>, no fill value), in its steps: the rows are grouped by both
  keys (\<open>records\<close>, \<open>agg_mean\<close>), the groups whose mean is NaN are dropped
  (\<open>dropna_all\<close>), and what is left is unstacked over the sorted labels that still occur
  (\<open>unstack\<close>). A key label that occurs more than once is a ValueError (the grouper is
  not one-dimensional), a column that holds a string cannot be averaged (TypeError). The
  result \<open>None\<close> is for the inputs this theory does not follow pandas through: keys
  that are not whole numbers (they do not occur, lines 76 and 77 assign them), a value
  column of timestamps, an object column with no value at all, a repeated value label.
\<close>

definition records ::
  "int option list \<Rightarrow> int option list \<Rightarrow> f64 option list \<Rightarrow> ((int \<times> int) \<times> f64 option) list" where
  "records hs ms ps = somes (map keyed (zip hs (zip ms ps)))"

definition agg_mean ::
  "pandas \<Rightarrow> ((int \<times> int) \<times> f64 option) list \<Rightarrow> ((int \<times> int) \<times> f64 option) list" where
  "agg_mean pd recs =
     map (\<lambda>k. (k, mean pd (map snd (filter (\<lambda>r. fst r = k) recs)))) (remdups (map fst recs))"

definition dropna_all ::
  "((int \<times> int) \<times> f64 option) list \<Rightarrow> ((int \<times> int) \<times> f64 option) list" where
  "dropna_all agged = filter (\<lambda>(k, a). a \<noteq> None) agged"

definition unstack :: "((int \<times> int) \<times> f64 option) list \<Rightarrow> pivot" where
  "unstack kept =
     (let idx = sort (remdups (map (\<lambda>((h, m), a). h) kept));
          cls = sort (remdups (map (\<lambda>((h, m), a). m) kept))
      in \<lparr>index = idx, pcolumns = cls,
          pvalues = map (\<lambda>h. map (\<lambda>m.
              (case map_of kept (h, m) of None \<Rightarrow> None | Some a \<Rightarrow> a)) cls) idx\<rparr>)"

definition pivot_table ::
  "pandas \<Rightarrow> table \<Rightarrow> label \<Rightarrow> label \<Rightarrow> label \<Rightarrow> py_exception + pivot option" where
  "pivot_table pd df i c v =
     (case getitem df i of
        Inl e \<Rightarrow> Inl e
      | Inr (Sub _) \<Rightarrow> Inl (Exception ''ValueError'')
      | Inr (Series (IntCol hs)) \<Rightarrow>
          (case getitem df c of
             Inl e \<Rightarrow> Inl e
           | Inr (Sub _) \<Rightarrow> Inl (Exception ''ValueError'')
           | Inr (Series (IntCol ms)) \<Rightarrow>
               (case getitem df v of
                  Inl e \<Rightarrow> Inl e
                | Inr (Sub _) \<Rightarrow> Inr None
                | Inr (Series (ObjCol xs)) \<Rightarrow>
                    if somes xs = [] then Inr None else Inl (Exception ''TypeError'')
                | Inr (Series (TimeCol ts)) \<Rightarrow> Inr None
                | Inr (Series pc) \<Rightarrow>
                    (case price_values pc of
                       None \<Rightarrow> Inr None
                     | Some ps \<Rightarrow>
                         Inr (Some (unstack (dropna_all (agg_mean pd (records hs ms ps)))))))
           | Inr (Series _) \<Rightarrow> Inr None)
      | Inr (Series _) \<Rightarrow> Inr None)"

text \<open>
  \<^verbatim>\<open>interpolate(method="linear", axis=0)\<close>, column by column. The linear method takes the
  rows as equally spaced: the known cells of a column are points (row position, value),
  \<^verbatim>\<open>np.interp\<close> is evaluated at the positions of the missing cells (the last value after
  the last point), and the cells before the first known one stay missing. A column with
  no known cell is left as it is.
\<close>

fun points_from :: "nat \<Rightarrow> f64 option list \<Rightarrow> (nat \<times> f64) list" where
  "points_from p [] = []"
| "points_from p (None # ys) = points_from (Suc p) ys"
| "points_from p (Some v # ys) = (p, v) # points_from (Suc p) ys"

fun np_interp :: "pandas \<Rightarrow> (nat \<times> f64) list \<Rightarrow> nat \<Rightarrow> f64 option" where
  "np_interp pd [] x = None"
| "np_interp pd [(p, v)] x = Some v"
| "np_interp pd ((p, v) # (q, w) # pts) x =
     (if x \<le> p then Some v
      else if x < q then interp_of pd p v q w x
      else np_interp pd ((q, w) # pts) x)"

definition interpolate_col :: "pandas \<Rightarrow> f64 option list \<Rightarrow> f64 option list" where
  "interpolate_col pd ys =
     (case points_from 0 ys of
        [] \<Rightarrow> ys
      | (p0, v0) # pts \<Rightarrow>
          map (\<lambda>(i, y). case y of
                 Some v \<Rightarrow> Some v
               | None \<Rightarrow> if i < p0 then None else np_interp pd ((p0, v0) # pts) i)
            (zip [0..<length ys] ys))"

definition column_of :: "nat \<Rightarrow> 'a list list \<Rightarrow> 'a list" where
  "column_of j rows = map (\<lambda>row. row ! j) rows"

definition interpolate :: "pandas \<Rightarrow> pivot \<Rightarrow> pivot" where
  "interpolate pd pv =
     pv\<lparr>pvalues :=
          map (\<lambda>i. map (\<lambda>j. interpolate_col pd (column_of j (pvalues pv)) ! i)
                     [0..<length (pcolumns pv)])
            [0..<length (index pv)]\<rparr>"

text \<open>\<^verbatim>\<open>fillna(0)\<close>.\<close>

definition fillna :: "f64 \<Rightarrow> f64 option list list \<Rightarrow> f64 list list" where
  "fillna d rows = map (map (\<lambda>y. case y of None \<Rightarrow> d | Some v \<Rightarrow> v)) rows"

text \<open>
  \<^verbatim>\<open>build_surface_figure\<close>, lines 63 to 147, on the pair that \<^verbatim>\<open>get_surface_data\<close>
  returned. Nothing here is inside a \<^verbatim>\<open>try\<close>: an exception of a pandas call is raised to
  the caller. The guard of line 65 is the first equation and the test of \<open>empty\<close>.
\<close>

fun build_surface_figure :: "pandas \<Rightarrow> table \<times> string option \<Rightarrow> py_exception + figure" where
  "build_surface_figure pd (df, None) = Inr Blank"
| "build_surface_figure pd (df, Some price_col) =
     (if empty df then Inr Blank
      else
        (case dt_field dt_month df of
           Inl e \<Rightarrow> Inl e
         | Inr mc \<Rightarrow>
             (let df1 = setitem df (Str ''month'') mc
              in case dt_field dt_hour df1 of
                   Inl e \<Rightarrow> Inl e
                 | Inr hc \<Rightarrow>
                     (let df2 = setitem df1 (Str ''hour'') hc
                      in case pivot_table pd df2 (Str ''hour'') (Str ''month'') (Str price_col) of
                           Inl e \<Rightarrow> Inl e
                         | Inr None \<Rightarrow> Inr Unmodelled
                         | Inr (Some pv) \<Rightarrow>
                             (let pv' = interpolate pd pv
                              in Inr (Surface (pcolumns pv') (index pv')
                                        (fillna (Finite 0) (pvalues pv'))))))))"

text \<open>The cell of a surface at a row label and a column label, when both are on the axes.\<close>

definition grid_at :: "figure \<Rightarrow> int \<Rightarrow> int \<Rightarrow> f64 option" where
  "grid_at fig h m =
     (case fig of
        Surface xs ys zs \<Rightarrow>
          (case map_of (zip ys zs) h of
             None \<Rightarrow> None
           | Some row \<Rightarrow> map_of (zip xs row) m)
      | _ \<Rightarrow> None)"

text \<open>
  Line 63 in a process that has cached nothing yet: the figure built from what
  \<^verbatim>\<open>get_surface_data\<close> makes of one call of \<^verbatim>\<open>load_master\<close>.
\<close>

definition build_from :: "pandas \<Rightarrow> load_result \<Rightarrow> py_exception + figure" where
  "build_from pd r =
     (case get_surface_data pd r of
        Inl e \<Rightarrow> Inl e
      | Inr res \<Rightarrow> build_surface_figure pd res)"

text \<open>
  The records of a table with a given hour and month, read off the timestamps \<open>ts\<close>
  and the prices \<open>ps\<close> row by row: their prices, in row order.
\<close>

definition prices_at :: "stamp option list \<Rightarrow> f64 option list \<Rightarrow> nat \<Rightarrow> nat \<Rightarrow> f64 option list" where
  "prices_at ts ps h m =
     map snd (filter (\<lambda>(s, p). case s of None \<Rightarrow> False
                                | Some st \<Rightarrow> dt_hour st = h \<and> dt_month st = m) (zip ts ps))"

section \<open>The process: memoised calls and frames as objects\<close>

text \<open>
  Both functions carry \<^verbatim>\<open>@lru_cache(maxsize=1)\<close> and take no argument: the first call that
  returns stores its result, every later call returns the stored result, and a call that
  raises stores nothing. Data frames are objects: the heap lists the frames this module
  holds, a reference is a position in it. The cache of \<^verbatim>\<open>get_surface_data\<close> holds the
  reference to the prepared frame, so a write through that reference would change what
  the cache returns. \<open>loads\<close> counts the calls of \<^verbatim>\<open>load_master\<close>, whose behaviour
  may differ from call to call. The frame that \<^verbatim>\<open>load_master\<close> returns, to which lines 27 to
  37 write the \<open>datetime\<close> column, is the upstream's object and is not in this heap.
\<close>

type_synonym ref = nat

type_synonym upstream = "nat \<Rightarrow> load_result"

record process =
  heap :: "table list"
  data_cache :: "(ref \<times> string option) option"
  figure_cache :: "figure option"
  loads :: nat

definition start :: process where
  "start = \<lparr>heap = [], data_cache = None, figure_cache = None, loads = 0\<rparr>"

text \<open>
  The memoised \<^verbatim>\<open>get_surface_data()\<close>: the frame it returns (the result of \<^verbatim>\<open>dropna\<close>, or
  \<^verbatim>\<open>pd.DataFrame()\<close>) is a new object.
\<close>

definition get_surface_data_cached ::
  "pandas \<Rightarrow> upstream \<Rightarrow> process \<Rightarrow> (py_exception + (ref \<times> string option)) \<times> process" where
  "get_surface_data_cached pd load_master s =
     (case data_cache s of
        Some res \<Rightarrow> (Inr res, s)
      | None \<Rightarrow>
          (case get_surface_data pd (load_master (loads s)) of
             Inl e \<Rightarrow> (Inl e, s\<lparr>loads := Suc (loads s)\<rparr>)
           | Inr (df, price_col) \<Rightarrow>
               (Inr (length (heap s), price_col),
                s\<lparr>heap := heap s @ [df],
                  data_cache := Some (length (heap s), price_col),
                  loads := Suc (loads s)\<rparr>)))"

text \<open>
  The body of \<^verbatim>\<open>build_surface_figure\<close> on references: \<^verbatim>\<open>df.copy()\<close> of line 75 makes a
  new object, and the two assignments of lines 76 and 77 write to that object.
\<close>

definition build_body ::
  "pandas \<Rightarrow> table list \<Rightarrow> ref \<times> string option \<Rightarrow> (py_exception + figure) \<times> table list" where
  "build_body pd h res =
     (case res of
        (a, None) \<Rightarrow> (Inr Blank, h)
      | (a, Some price_col) \<Rightarrow>
          (if empty (h ! a) then (Inr Blank, h)
           else
             (let b = length h; h0 = h @ [h ! a]
              in case dt_field dt_month (h0 ! b) of
                   Inl e \<Rightarrow> (Inl e, h0)
                 | Inr mc \<Rightarrow>
                     (let h1 = h0[b := setitem (h0 ! b) (Str ''month'') mc]
                      in case dt_field dt_hour (h1 ! b) of
                           Inl e \<Rightarrow> (Inl e, h1)
                         | Inr hc \<Rightarrow>
                             (let h2 = h1[b := setitem (h1 ! b) (Str ''hour'') hc]
                              in case pivot_table pd (h2 ! b) (Str ''hour'') (Str ''month'')
                                        (Str price_col) of
                                   Inl e \<Rightarrow> (Inl e, h2)
                                 | Inr None \<Rightarrow> (Inr Unmodelled, h2)
                                 | Inr (Some pv) \<Rightarrow>
                                     (let pv' = interpolate pd pv
                                      in (Inr (Surface (pcolumns pv') (index pv')
                                                 (fillna (Finite 0) (pvalues pv'))), h2)))))))"

text \<open>The memoised \<^verbatim>\<open>build_surface_figure()\<close>.\<close>

definition build_surface_figure_cached ::
  "pandas \<Rightarrow> upstream \<Rightarrow> process \<Rightarrow> (py_exception + figure) \<times> process" where
  "build_surface_figure_cached pd load_master s =
     (case figure_cache s of
        Some fig \<Rightarrow> (Inr fig, s)
      | None \<Rightarrow>
          (case get_surface_data_cached pd load_master s of
             (Inl e, s1) \<Rightarrow> (Inl e, s1)
           | (Inr res, s1) \<Rightarrow>
               (case build_body pd (heap s1) res of
                  (Inl e, h) \<Rightarrow> (Inl e, s1\<lparr>heap := h\<rparr>)
                | (Inr fig, h) \<Rightarrow> (Inr fig, s1\<lparr>heap := h, figure_cache := Some fig\<rparr>))))"

text \<open>The state after \<open>n\<close> calls of \<^verbatim>\<open>build_surface_figure()\<close>, one per page view.\<close>

fun views :: "nat \<Rightarrow> pandas \<Rightarrow> upstream \<Rightarrow> process \<Rightarrow> process" where
  "views 0 pd load_master s = s"
| "views (Suc n) pd load_master s =
     views n pd load_master (snd (build_surface_figure_cached pd load_master s))"

text \<open>In a state of the process, the cached reference points into the heap.\<close>

definition cache_valid :: "process \<Rightarrow> bool" where
  "cache_valid s \<longleftrightarrow>
     (case data_cache s of None \<Rightarrow> True | Some (a, price_col) \<Rightarrow> a < length (heap s))"

section \<open>Example inputs\<close>

text \<open>
  A parser for the examples: the strings \<open>Jan-00h\<close>, \<open>Jan-02h\<close>, \<open>Jan-05h\<close>,
  \<open>Feb-01h\<close> and \<open>Feb-00h\<close> are timestamps of 2024 in that month and hour, and
  nothing else parses. A column that holds both \<open>Jan-00h+01\<close> and \<open>Jan-00h+02\<close>
  has mixed UTC offsets, on which the parser raises ValueError.
\<close>

definition ex_parse_cell :: "string option \<Rightarrow> stamp option" where
  "ex_parse_cell x =
     (if x = Some ''Jan-00h'' then Some (mk_stamp 2024 1 1 0)
      else if x = Some ''Jan-02h'' then Some (mk_stamp 2024 1 1 2)
      else if x = Some ''Jan-05h'' then Some (mk_stamp 2024 1 1 5)
      else if x = Some ''Feb-01h'' then Some (mk_stamp 2024 2 1 1)
      else if x = Some ''Feb-00h'' then Some (mk_stamp 2024 2 1 0)
      else None)"

fun ex_to_datetime :: "column \<Rightarrow> string + (nat \<Rightarrow> stamp option)" where
  "ex_to_datetime (ObjCol xs) =
     (if Some ''Jan-00h+01'' \<in> set xs \<and> Some ''Jan-00h+02'' \<in> set xs then Inl ''ValueError''
      else Inr (\<lambda>i. if i < length xs then ex_parse_cell (xs ! i) else None))"
| "ex_to_datetime (TimeCol xs) = Inr (\<lambda>i. if i < length xs then xs ! i else None)"
| "ex_to_datetime (NumCol xs) = Inr (\<lambda>i. None)"
| "ex_to_datetime (IntCol xs) = Inr (\<lambda>i. None)"

text \<open>
  An arithmetic for the examples: on finite values whose mean, or whose point on the
  line, float64 represents exactly (as for the small whole numbers of the examples) it
  is that value.
\<close>

fun finite_values :: "f64 list \<Rightarrow> rat list option" where
  "finite_values [] = Some []"
| "finite_values (Finite r # vs) = map_option ((#) r) (finite_values vs)"
| "finite_values (v # vs) = None"

definition ex_mean :: "f64 list \<Rightarrow> f64 option" where
  "ex_mean vs =
     (case finite_values vs of
        None \<Rightarrow> None
      | Some rs \<Rightarrow> Some (Finite (sum_list rs / of_nat (length rs))))"

fun ex_interp :: "nat \<Rightarrow> f64 \<Rightarrow> nat \<Rightarrow> f64 \<Rightarrow> nat \<Rightarrow> f64 option" where
  "ex_interp p (Finite a) q (Finite b) x =
     Some (Finite (a + (b - a) * of_nat (x - p) / of_nat (q - p)))"
| "ex_interp p v q w x = None"

definition ex_pd :: pandas where
  "ex_pd = \<lparr>to_datetime_of = ex_to_datetime, mean_of = ex_mean, interp_of = ex_interp\<rparr>"

text \<open>The two records of the interpolation example of the specification.\<close>

definition ex_two :: table where
  "ex_two =
     \<lparr>nrows = 2,
      cols = [(Str ''datetime'', ObjCol [Some ''Jan-00h'', Some ''Jan-02h'']),
              (Str ''standardized_price'', NumCol [Some (Finite 10), Some (Finite 20)])]\<rparr>"

text \<open>The same with a third record in hour 1 of another month.\<close>

definition ex_three :: table where
  "ex_three =
     \<lparr>nrows = 3,
      cols = [(Str ''datetime'', ObjCol [Some ''Jan-00h'', Some ''Jan-02h'', Some ''Feb-01h'']),
              (Str ''standardized_price'',
               NumCol [Some (Finite 10), Some (Finite 20), Some (Finite 5)])]\<rparr>"

text \<open>Hours 0 and 5 of January, and hour 1 of February: the rows are not equally spaced.\<close>

definition ex_uneven :: table where
  "ex_uneven =
     \<lparr>nrows = 3,
      cols = [(Str ''datetime'', ObjCol [Some ''Jan-00h'', Some ''Jan-05h'', Some ''Feb-01h'']),
              (Str ''standardized_price'',
               NumCol [Some (Finite 10), Some (Finite 20), Some (Finite 5)])]\<rparr>"

text \<open>A record without a price, one unparseable time, and the price under \<open>charge\<close>.\<close>

definition ex_gaps :: table where
  "ex_gaps =
     \<lparr>nrows = 4,
      cols = [(Str ''id'', ObjCol [Some ''a'', Some ''b'', Some ''c'', Some ''d'']),
              (Str ''Sale_Date'',
               ObjCol [Some ''Jan-00h'', Some ''n/a'', Some ''Jan-00h'', Some ''Feb-00h'']),
              (Str ''charge'', NumCol [Some (Finite 10), Some (Finite 7), None, None])]\<rparr>"

text \<open>No column that looks like a timestamp.\<close>

definition ex_no_time :: table where
  "ex_no_time =
     \<lparr>nrows = 2,
      cols = [(Str ''id'', ObjCol [Some ''a'', Some ''b'']),
              (Str ''standardized_price'', NumCol [Some (Finite 10), Some (Finite 20)])]\<rparr>"

text \<open>Timestamps, and no price under either name.\<close>

definition ex_no_price :: table where
  "ex_no_price =
     \<lparr>nrows = 2,
      cols = [(Str ''datetime'', ObjCol [Some ''Jan-00h'', Some ''Jan-02h'']),
              (Str ''amount'', NumCol [Some (Finite 10), Some (Finite 20)])]\<rparr>"

text \<open>Three records, two of them without a price.\<close>

definition ex_missing_price :: table where
  "ex_missing_price =
     \<lparr>nrows = 3,
      cols = [(Str ''datetime'', ObjCol [Some ''Jan-00h'', Some ''Jan-00h'', Some ''Feb-00h'']),
              (Str ''standardized_price'', NumCol [Some (Finite 10), None, None])]\<rparr>"

text \<open>Timestamps with mixed UTC offsets, and a price column.\<close>

definition ex_mixed_offsets :: table where
  "ex_mixed_offsets =
     \<lparr>nrows = 2,
      cols = [(Str ''datetime'', ObjCol [Some ''Jan-00h+01'', Some ''Jan-00h+02'']),
              (Str ''standardized_price'', NumCol [Some (Finite 10), Some (Finite 20)])]\<rparr>"

text \<open>A column labelled by a number, before a price column; no timestamp column.\<close>

definition ex_number_label :: table where
  "ex_number_label =
     \<lparr>nrows = 1,
      cols = [(Obj 0, ObjCol [Some ''Jan-00h'']),
              (Str ''standardized_price'', NumCol [Some (Finite 10)])]\<rparr>"

text \<open>A price column of strings.\<close>

definition ex_text_price :: table where
  "ex_text_price =
     \<lparr>nrows = 2,
      cols = [(Str ''datetime'', ObjCol [Some ''Jan-00h'', Some ''Jan-02h'']),
              (Str ''standardized_price'', ObjCol [Some ''ten'', Some ''twenty''])]\<rparr>"

text \<open>
  The table that \<^verbatim>\<open>get_surface_data\<close> prepares from a table, to name it in the examples.
\<close>

definition prepared_of :: "pandas \<Rightarrow> table \<Rightarrow> table" where
  "prepared_of pd t =
     (case get_surface_data pd (Returns t) of
        Inr (df, price_col) \<Rightarrow> df
      | Inl e \<Rightarrow> DataFrame)"

text \<open>The pivot of the three records of \<open>ex_three\<close>: a gap in hour 1 of month 1.\<close>

definition ex_pivot :: pivot where
  "ex_pivot =
     \<lparr>index = [0, 1, 2], pcolumns = [1, 2],
      pvalues = [[Some (Finite 10), None], [None, Some (Finite 5)], [Some (Finite 20), None]]\<rparr>"

text \<open>An upstream whose second fetch would return other data than its first.\<close>

definition ex_upstream :: upstream where
  "ex_upstream k = (if k = 0 then Returns ex_three else Returns ex_two)"

section \<open>Properties of the data preparation\<close>

lemma getitem_member:
  "name \<in> set (columns df) \<Longrightarrow> \<exists>sel. getitem df name = Inr sel"
proof -
  assume "name \<in> set (columns df)"
  then have "filter (\<lambda>p. fst p = name) (cols df) \<noteq> []"
    by (auto simp: columns_def filter_empty_conv)
  then show ?thesis
    by (cases "filter (\<lambda>p. fst p = name) (cols df)" rule: remdups_adj.cases)
      (simp_all add: getitem_def)
qed

lemma getitem_Inr_member: "getitem df name = Inr sel \<Longrightarrow> name \<in> set (columns df)"
proof -
  assume "getitem df name = Inr sel"
  then have "filter (\<lambda>p. fst p = name) (cols df) \<noteq> []"
    by (auto simp: getitem_def)
  then show ?thesis
    by (auto simp: columns_def filter_empty_conv)
qed

lemma getitem_Inl: "getitem df name = Inl e \<Longrightarrow> e = Exception ''KeyError''"
  by (cases "filter (\<lambda>p. fst p = name) (cols df)" rule: remdups_adj.cases)
    (simp_all add: getitem_def)

lemma filter_key_distinct:
  "distinct (map fst xs) \<Longrightarrow> length (filter (\<lambda>p. fst p = k) xs) \<le> 1"
proof (induction xs)
  case Nil
  then show ?case by simp
next
  case (Cons x xs)
  show ?case
  proof (cases "fst x = k")
    case True
    with Cons.prems have "k \<notin> fst ` set xs"
      by simp
    then have "filter (\<lambda>p. fst p = k) xs = []"
      unfolding filter_empty_conv by (metis image_eqI)
    with True show ?thesis by simp
  next
    case False
    with Cons show ?thesis by simp
  qed
qed

lemma getitem_distinct:
  assumes "distinct (columns df)" and "name \<in> set (columns df)"
  shows "\<exists>c. getitem df name = Inr (Series c)"
proof -
  from assms(1) have "length (filter (\<lambda>p. fst p = name) (cols df)) \<le> 1"
    unfolding columns_def by (rule filter_key_distinct)
  moreover from assms(2) have "filter (\<lambda>p. fst p = name) (cols df) \<noteq> []"
    by (auto simp: columns_def filter_empty_conv)
  ultimately show ?thesis
    by (cases "filter (\<lambda>p. fst p = name) (cols df)" rule: remdups_adj.cases)
      (simp_all add: getitem_def)
qed

lemma columns_setitem:
  "columns (setitem df name c) =
     (if name \<in> set (columns df) then columns df else columns df @ [name])"
proof -
  have "map fst (map (\<lambda>p. if fst p = name then (name, c) else p) xs) = map fst xs" for xs :: "(label \<times> column) list"
    by (induction xs) auto
  then show ?thesis
    by (simp add: columns_def setitem_def)
qed

lemma nrows_setitem: "nrows (setitem df name c) = nrows df"
  by (simp add: setitem_def)

lemma cols_setitem_nonempty: "cols (setitem df name c) \<noteq> []"
  by (auto simp: setitem_def columns_def)

lemma filter_replaced:
  "filter (\<lambda>p. fst p = name') (map (\<lambda>p. if fst p = name then (name, c) else p) xs) =
     (if name' = name then map (\<lambda>p. (name, c)) (filter (\<lambda>p. fst p = name) xs)
      else filter (\<lambda>p. fst p = name') xs)"
  by (induction xs) auto

lemma getitem_setitem_other:
  "name' \<noteq> name \<Longrightarrow> getitem (setitem df name c) name' = getitem df name'"
  by (simp add: getitem_def setitem_def filter_replaced)

lemma getitem_setitem_same:
  assumes "name \<notin> set (columns df) \<or> (\<exists>c0. getitem df name = Inr (Series c0))"
  shows "getitem (setitem df name c) name = Inr (Series c)"
proof (cases "name \<in> set (columns df)")
  case False
  then have "filter (\<lambda>p. fst p = name) (cols df) = []"
    by (auto simp: columns_def filter_empty_conv)
  with False show ?thesis
    by (simp add: getitem_def setitem_def)
next
  case True
  with assms obtain c0 where "getitem df name = Inr (Series c0)"
    by blast
  then obtain p where "filter (\<lambda>p. fst p = name) (cols df) = [p]"
    by (cases "filter (\<lambda>p. fst p = name) (cols df)" rule: remdups_adj.cases)
      (simp_all add: getitem_def)
  with True show ?thesis
    by (simp add: getitem_def setitem_def filter_replaced)
qed

lemma datetime_cols_Inl:
  "datetime_cols ls = Inl e \<Longrightarrow> e = Exception ''AttributeError''"
  by (induction ls arbitrary: e rule: datetime_cols.induct) (auto split: sum.splits)

lemma to_datetime_Inl: "to_datetime pd sel = Inl e \<Longrightarrow> \<exists>n. e = Exception n"
  by (cases sel) (auto split: sum.splits)

lemma to_datetime_Inr:
  "to_datetime pd sel = Inr ts \<Longrightarrow>
     \<exists>c f. sel = Series c \<and> to_datetime_of pd c = Inr f \<and> ts = map f [0..<col_len c]"
  by (cases sel) (auto split: sum.splits)

lemma ensure_datetime_Inl: "ensure_datetime pd t = Inl e \<Longrightarrow> \<exists>n. e = Exception n"
  by (auto simp: ensure_datetime_def split: if_splits sum.splits list.splits
      dest: getitem_Inl datetime_cols_Inl to_datetime_Inl)

lemma ensure_datetime_Inr:
  assumes "ensure_datetime pd t = Inr t1"
  shows "\<exists>ts. t1 = setitem t (Str ''datetime'') (TimeCol ts) \<and>
           (Str ''datetime'' \<notin> set (columns t) \<or>
            (\<exists>c0. getitem t (Str ''datetime'') = Inr (Series c0)))"
  using assms
  by (auto simp: ensure_datetime_def split: if_splits sum.splits list.splits
      dest: to_datetime_Inr)

lemma columns_dropna:
  "dropna df name = Inr df' \<Longrightarrow> columns df' = columns df"
  by (auto simp: dropna_def columns_def Let_def split: sum.splits)

lemma choose_price_cong:
  "(Str ''standardized_price'' \<in> set (columns df) \<longleftrightarrow> Str ''standardized_price'' \<in> set (columns df')) \<Longrightarrow>
   (Str ''charge'' \<in> set (columns df) \<longleftrightarrow> Str ''charge'' \<in> set (columns df')) \<Longrightarrow>
   choose_price df = choose_price df'"
  by (simp add: choose_price_def)

lemma keep_map_self: "keep (map P xs) xs = filter P xs"
  by (induction xs) (auto simp: keep_def)

lemma length_filter_id_map: "length (filter id (map P xs)) = length (filter P xs)"
  by (induction xs) auto

lemma filter_map_cols:
  "filter (\<lambda>p. fst p = name) (map (\<lambda>(n, c'). (n, g c')) xs) =
     map (\<lambda>(n, c'). (n, g c')) (filter (\<lambda>p. fst p = name) xs)"
  by (induction xs) auto

lemma getitem_map_cols:
  "getitem \<lparr>nrows = n, cols = map (\<lambda>(k, c). (k, g c)) (cols df)\<rparr> name =
     (case getitem df name of
        Inl e \<Rightarrow> Inl e
      | Inr (Series c) \<Rightarrow> Inr (Series (g c))
      | Inr (Sub cs) \<Rightarrow> Inr (Sub (map g cs)))"
  by (cases "filter (\<lambda>p. fst p = name) (cols df)" rule: remdups_adj.cases)
    (auto simp: getitem_def filter_map_cols split: prod.splits)

lemma prepared_frame:
  assumes "ensure_datetime pd t = Inr (setitem t (Str ''datetime'') (TimeCol ts))"
    and "Str ''datetime'' \<notin> set (columns t) \<or>
            (\<exists>c0. getitem t (Str ''datetime'') = Inr (Series c0))"
  shows "\<exists>df. get_surface_data pd (Returns t) = Inr (df, choose_price t) \<and>
           getitem df (Str ''datetime'') = Inr (Series (TimeCol (filter (\<lambda>x. x \<noteq> None) ts))) \<and>
           nrows df = length (filter (\<lambda>x. x \<noteq> None) ts) \<and>
           cols df \<noteq> [] \<and>
           columns df = columns (setitem t (Str ''datetime'') (TimeCol ts)) \<and>
           (\<forall>name. name \<noteq> Str ''datetime'' \<longrightarrow>
              getitem df name =
                (case getitem t name of
                   Inl e \<Rightarrow> Inl e
                 | Inr (Series c) \<Rightarrow> Inr (Series (keep_col (map (\<lambda>x. x \<noteq> None) ts) c))
                 | Inr (Sub cs) \<Rightarrow> Inr (Sub (map (keep_col (map (\<lambda>x. x \<noteq> None) ts)) cs))))"
proof -
  let ?t1 = "setitem t (Str ''datetime'') (TimeCol ts)"
  let ?flags = "map (\<lambda>x. x \<noteq> None) ts"
  let ?df2 = "\<lparr>nrows = length (filter id ?flags),
          cols = map (\<lambda>(n, c'). (n, keep_col ?flags c')) (cols ?t1)\<rparr>"
  have s: "getitem ?t1 (Str ''datetime'') = Inr (Series (TimeCol ts))"
    using assms(2) by (rule getitem_setitem_same)
  then have d: "dropna ?t1 (Str ''datetime'') = Inr ?df2"
    by (simp add: dropna_def Let_def)
  have c2: "columns ?df2 = columns ?t1"
    using d by (rule columns_dropna)
  then have "choose_price ?df2 = choose_price t"
    by (intro choose_price_cong) (auto simp: columns_setitem)
  then have g: "get_surface_data pd (Returns t) = Inr (?df2, choose_price t)"
    using assms(1) d by (simp add: get_surface_data_def try_block_def)
  have c: "getitem ?df2 (Str ''datetime'') = Inr (Series (TimeCol (filter (\<lambda>x. x \<noteq> None) ts)))"
    by (simp add: getitem_map_cols s keep_map_self)
  have n: "nrows ?df2 = length (filter (\<lambda>x. x \<noteq> None) ts)"
    by (simp add: length_filter_id_map)
  have e: "cols ?df2 \<noteq> []"
    using cols_setitem_nonempty [of t "Str ''datetime''" "TimeCol ts"] by simp
  have o: "\<forall>name. name \<noteq> Str ''datetime'' \<longrightarrow>
      getitem ?df2 name =
        (case getitem t name of
           Inl e \<Rightarrow> Inl e
         | Inr (Series c) \<Rightarrow> Inr (Series (keep_col ?flags c))
         | Inr (Sub cs) \<Rightarrow> Inr (Sub (map (keep_col ?flags) cs)))"
  proof (intro allI impI)
    fix name :: label
    assume "name \<noteq> Str ''datetime''"
    then have h: "getitem ?t1 name = getitem t name"
      by (rule getitem_setitem_other)
    show "getitem ?df2 name =
        (case getitem t name of
           Inl e \<Rightarrow> Inl e
         | Inr (Series c) \<Rightarrow> Inr (Series (keep_col ?flags c))
         | Inr (Sub cs) \<Rightarrow> Inr (Sub (map (keep_col ?flags) cs)))"
      by (simp only: getitem_map_cols h)
  qed
  from g c n e c2 o show ?thesis by blast
qed

lemma get_surface_data_Returns_cases:
  "(\<exists>df. get_surface_data pd (Returns t) = Inr (df, choose_price t)) \<or>
   get_surface_data pd (Returns t) = Inr (DataFrame, None)"
proof (cases "ensure_datetime pd t")
  case (Inl e)
  from ensure_datetime_Inl [OF Inl] obtain n where "e = Exception n"
    by blast
  with Inl show ?thesis
    by (simp add: get_surface_data_def try_block_def)
next
  case (Inr t1)
  from ensure_datetime_Inr [OF Inr] obtain ts where
    "t1 = setitem t (Str ''datetime'') (TimeCol ts)"
    and "Str ''datetime'' \<notin> set (columns t) \<or>
            (\<exists>c0. getitem t (Str ''datetime'') = Inr (Series c0))"
    by blast
  with Inr prepared_frame [of pd t ts] show ?thesis
    by blast
qed

lemma preparation_failed:
  assumes "ensure_datetime pd t = Inl e"
  shows "get_surface_data pd (Returns t) = Inr (DataFrame, None)"
proof -
  from ensure_datetime_Inl [OF assms] obtain n where "e = Exception n"
    by blast
  with assms show ?thesis
    by (simp add: get_surface_data_def try_block_def)
qed

lemma datetime_cols_strings:
  "datetime_cols (map Str ss) =
     Inr (filter (\<lambda>c. sublist ''date'' (lower c) \<or> sublist ''time'' (lower c)) ss)"
  by (induction ss) simp_all

lemma datetime_cols_Obj:
  "Obj k \<in> set ls \<Longrightarrow> datetime_cols ls = Inl (Exception ''AttributeError'')"
  by (induction ls rule: datetime_cols.induct) (auto split: sum.splits dest: datetime_cols_Inl)

lemma datetime_cols_Inr_mem:
  "datetime_cols ls = Inr r \<Longrightarrow> c \<in> set r \<Longrightarrow>
     Str c \<in> set ls \<and> (sublist ''date'' (lower c) \<or> sublist ''time'' (lower c))"
  by (induction ls arbitrary: r rule: datetime_cols.induct)
    (auto split: sum.splits if_splits)

lemma ensure_datetime_literal:
  assumes "getitem t (Str ''datetime'') = Inr (Series c)"
  shows "ensure_datetime pd t =
     (case to_datetime_of pd c of
        Inl n \<Rightarrow> Inl (Exception n)
      | Inr f \<Rightarrow> Inr (setitem t (Str ''datetime'') (TimeCol (map f [0..<col_len c]))))"
proof -
  have "Str ''datetime'' \<in> set (columns t)"
    using assms by (rule getitem_Inr_member)
  with assms show ?thesis
    by (simp add: ensure_datetime_def split: sum.splits)
qed

lemma ensure_datetime_repeated:
  assumes "getitem t (Str ''datetime'') = Inr (Sub cs)"
  shows "ensure_datetime pd t = Inl (Exception ''ValueError'')"
proof -
  have "Str ''datetime'' \<in> set (columns t)"
    using assms by (rule getitem_Inr_member)
  with assms show ?thesis
    by (simp add: ensure_datetime_def)
qed

lemma ensure_datetime_first_match:
  assumes "Str ''datetime'' \<notin> set (columns t)"
    and "columns t = map Str (pre @ c0 # post)"
    and "sublist ''date'' (lower c0) \<or> sublist ''time'' (lower c0)"
    and "\<forall>c \<in> set pre. \<not> sublist ''date'' (lower c) \<and> \<not> sublist ''time'' (lower c)"
  shows "ensure_datetime pd t =
     (case getitem t (Str c0) of
        Inl e \<Rightarrow> Inl e
      | Inr sel \<Rightarrow>
          (case to_datetime pd sel of
             Inl e \<Rightarrow> Inl e
           | Inr ts \<Rightarrow> Inr (setitem t (Str ''datetime'') (TimeCol ts))))"
proof -
  have "filter (\<lambda>c. sublist ''date'' (lower c) \<or> sublist ''time'' (lower c)) pre = []"
    using assms(4) by (simp add: filter_empty_conv)
  moreover have "datetime_cols (columns t) =
      Inr (filter (\<lambda>c. sublist ''date'' (lower c) \<or> sublist ''time'' (lower c))
             (pre @ c0 # post))"
    unfolding assms(2) by (rule datetime_cols_strings)
  ultimately have "datetime_cols (columns t) =
      Inr (c0 # filter (\<lambda>c. sublist ''date'' (lower c) \<or> sublist ''time'' (lower c)) post)"
    using assms(3) by simp
  with assms(1) show ?thesis
    by (simp add: ensure_datetime_def)
qed

lemma ensure_datetime_no_match:
  assumes "Str ''datetime'' \<notin> set (columns t)"
    and "datetime_cols (columns t) = Inr []"
  shows "ensure_datetime pd t =
     Inr (setitem t (Str ''datetime'') (TimeCol (replicate (nrows t) None)))"
  using assms by (simp add: ensure_datetime_def)

lemma ensure_datetime_not_string:
  assumes "Str ''datetime'' \<notin> set (columns t)" and "Obj k \<in> set (columns t)"
  shows "ensure_datetime pd t = Inl (Exception ''AttributeError'')"
  using assms datetime_cols_Obj [of k "columns t"] by (simp add: ensure_datetime_def)

lemma build_blank: "empty df \<or> pc = None \<Longrightarrow> build_surface_figure pd (df, pc) = Inr Blank"
  by (cases pc) auto

text \<open>
  C3 (as amended). Whatever \<^verbatim>\<open>load_master\<close> returns (a table of any shape, or an object that
  is no table), and whenever it raises an instance of \<^verbatim>\<open>Exception\<close>, \<^verbatim>\<open>get_surface_data\<close>
  returns; and on any instance of \<^verbatim>\<open>Exception\<close> raised in the \<^verbatim>\<open>try\<close> block (by
  \<^verbatim>\<open>load_master\<close> or by the preparation of lines 26 to 39) it returns the empty frame and
  no price column.
\<close>

theorem get_surface_data_catches:
  "((\<forall>n. r \<noteq> Raises (BaseException n)) \<longrightarrow> (\<exists>res. get_surface_data pd r = Inr res)) \<and>
   (\<forall>n. try_block pd r = Inl (Exception n) \<longrightarrow> get_surface_data pd r = Inr (DataFrame, None)) \<and>
   (\<forall>e. ensure_datetime pd t = Inl e \<longrightarrow>
      get_surface_data pd (Returns t) = Inr (DataFrame, None)) \<and>
   get_surface_data pd Returns_object = Inr (DataFrame, None) \<and>
   get_surface_data pd (Raises (Exception name)) = Inr (DataFrame, None)"
proof (intro conjI allI impI)
  assume nb: "\<forall>n. r \<noteq> Raises (BaseException n)"
  show "\<exists>res. get_surface_data pd r = Inr res"
  proof (cases r)
    case (Returns t')
    with get_surface_data_Returns_cases [of pd t'] show ?thesis by blast
  next
    case Returns_object
    then show ?thesis by (simp add: get_surface_data_def try_block_def)
  next
    case (Raises e)
    with nb show ?thesis
      by (cases e) (simp_all add: get_surface_data_def try_block_def)
  qed
next
  fix n
  assume "try_block pd r = Inl (Exception n)"
  then show "get_surface_data pd r = Inr (DataFrame, None)"
    by (simp add: get_surface_data_def)
next
  fix e
  assume "ensure_datetime pd t = Inl e"
  then show "get_surface_data pd (Returns t) = Inr (DataFrame, None)"
    by (rule preparation_failed)
next
  show "get_surface_data pd Returns_object = Inr (DataFrame, None)"
    by (simp add: get_surface_data_def try_block_def)
next
  show "get_surface_data pd (Raises (Exception name)) = Inr (DataFrame, None)"
    by (simp add: get_surface_data_def try_block_def)
qed

theorem get_surface_data_catches_witness:
  "try_block ex_pd (Returns ex_mixed_offsets) = Inl (Exception ''ValueError'') \<and>
   get_surface_data ex_pd (Returns ex_mixed_offsets) = Inr (DataFrame, None) \<and>
   ensure_datetime ex_pd ex_number_label = Inl (Exception ''AttributeError'') \<and>
   get_surface_data ex_pd (Returns ex_number_label) = Inr (DataFrame, None)"
proof -
  have a: "try_block ex_pd (Returns ex_mixed_offsets) = Inl (Exception ''ValueError'')"
    by code_simp
  have b: "ensure_datetime ex_pd ex_number_label = Inl (Exception ''AttributeError'')"
    by code_simp
  from a b
    get_surface_data_catches [of "Returns ex_mixed_offsets" ex_pd ex_number_label]
  show ?thesis by blast
qed

text \<open>
  C3 as stated fails: \<^verbatim>\<open>except Exception\<close> does not catch an exception that derives from
  \<^verbatim>\<open>BaseException\<close> only. When \<^verbatim>\<open>load_master\<close> raises \<^verbatim>\<open>KeyboardInterrupt\<close>,
  \<^verbatim>\<open>get_surface_data\<close> raises it to its caller.
\<close>

theorem get_surface_data_raises:
  "get_surface_data ex_pd (Raises (BaseException ''KeyboardInterrupt''))
     = Inl (BaseException ''KeyboardInterrupt'')"
  by (simp add: get_surface_data_def try_block_def)

text \<open>
  C4 (as amended). For every table that \<^verbatim>\<open>load_master\<close> returns: when lines 26 to 37 do
  not raise, the price column of the result is \<open>standardized_price\<close> when the table has
  that column, else \<open>charge\<close> when it has that one, else it is absent; when they raise,
  the result is the empty frame with no price column, whatever columns the table has.
\<close>

theorem price_priority:
  "(\<forall>t1. ensure_datetime pd t = Inr t1 \<longrightarrow>
      (\<exists>df. get_surface_data pd (Returns t) =
         Inr (df, if Str ''standardized_price'' \<in> set (columns t) then Some ''standardized_price''
                  else if Str ''charge'' \<in> set (columns t) then Some ''charge''
                  else None))) \<and>
   (\<forall>e. ensure_datetime pd t = Inl e \<longrightarrow>
      get_surface_data pd (Returns t) = Inr (DataFrame, None))"
proof (intro conjI allI impI)
  fix t1
  assume e: "ensure_datetime pd t = Inr t1"
  from ensure_datetime_Inr [OF e] obtain ts where
    "t1 = setitem t (Str ''datetime'') (TimeCol ts)"
    and "Str ''datetime'' \<notin> set (columns t) \<or>
            (\<exists>c0. getitem t (Str ''datetime'') = Inr (Series c0))"
    by blast
  with e prepared_frame [of pd t ts]
  obtain df where "get_surface_data pd (Returns t) = Inr (df, choose_price t)"
    by blast
  then show "\<exists>df. get_surface_data pd (Returns t) =
         Inr (df, if Str ''standardized_price'' \<in> set (columns t) then Some ''standardized_price''
                  else if Str ''charge'' \<in> set (columns t) then Some ''charge''
                  else None)"
    by (auto simp: choose_price_def)
next
  fix e
  assume "ensure_datetime pd t = Inl e"
  then show "get_surface_data pd (Returns t) = Inr (DataFrame, None)"
    by (rule preparation_failed)
qed

theorem price_priority_witness:
  "(case ensure_datetime ex_pd ex_gaps of Inl e \<Rightarrow> False | Inr t1 \<Rightarrow> True) \<and>
   Str ''standardized_price'' \<notin> set (columns ex_gaps) \<and> Str ''charge'' \<in> set (columns ex_gaps) \<and>
   (\<exists>df. get_surface_data ex_pd (Returns ex_gaps) = Inr (df, Some ''charge''))"
proof -
  have a: "case ensure_datetime ex_pd ex_gaps of Inl e \<Rightarrow> False | Inr t1 \<Rightarrow> True"
    by code_simp
  then obtain t1 where e: "ensure_datetime ex_pd ex_gaps = Inr t1"
    by (cases "ensure_datetime ex_pd ex_gaps") auto
  have c: "Str ''standardized_price'' \<notin> set (columns ex_gaps) \<and> Str ''charge'' \<in> set (columns ex_gaps)"
    by (simp add: columns_def ex_gaps_def)
  from a c e price_priority [of ex_pd ex_gaps] show ?thesis
    by auto
qed

text \<open>
  C4 as stated fails: the table has the column \<open>standardized_price\<close>, its timestamps
  have mixed UTC offsets, \<^verbatim>\<open>pd.to_datetime\<close> raises in line 27, and the handler returns no
  price column.
\<close>

theorem price_lost_when_preparation_raises:
  "Str ''standardized_price'' \<in> set (columns ex_mixed_offsets) \<and>
   get_surface_data ex_pd (Returns ex_mixed_offsets) = Inr (DataFrame, None)"
proof
  show "Str ''standardized_price'' \<in> set (columns ex_mixed_offsets)"
    by (simp add: columns_def ex_mixed_offsets_def)
  show "get_surface_data ex_pd (Returns ex_mixed_offsets) = Inr (DataFrame, None)"
    by code_simp
qed

text \<open>
  C5. An empty prepared table or an absent price column gives the blank figure, and no
  exception; so does every table of \<^verbatim>\<open>load_master\<close> with neither price column.
\<close>

theorem blank_when_unusable:
  "(empty df \<or> price_col = None \<longrightarrow> build_surface_figure pd (df, price_col) = Inr Blank) \<and>
   (Str ''standardized_price'' \<notin> set (columns t) \<and> Str ''charge'' \<notin> set (columns t) \<longrightarrow>
      (\<exists>res. get_surface_data pd (Returns t) = Inr res \<and>
             build_surface_figure pd res = Inr Blank))"
proof (intro conjI impI)
  assume "empty df \<or> price_col = None"
  then show "build_surface_figure pd (df, price_col) = Inr Blank"
    by (rule build_blank)
next
  assume "Str ''standardized_price'' \<notin> set (columns t) \<and> Str ''charge'' \<notin> set (columns t)"
  then have "choose_price t = None"
    by (simp add: choose_price_def)
  with get_surface_data_Returns_cases [of pd t]
  show "\<exists>res. get_surface_data pd (Returns t) = Inr res \<and>
      build_surface_figure pd res = Inr Blank"
    by auto
qed

theorem blank_when_unusable_witness:
  "(empty DataFrame \<or> Some ''charge'' = None) \<and>
   build_surface_figure ex_pd (DataFrame, Some ''charge'') = Inr Blank \<and>
   Str ''standardized_price'' \<notin> set (columns ex_no_price) \<and>
   Str ''charge'' \<notin> set (columns ex_no_price) \<and>
   (\<exists>res. get_surface_data ex_pd (Returns ex_no_price) = Inr res \<and>
          build_surface_figure ex_pd res = Inr Blank)"
proof -
  have e: "empty DataFrame \<or> Some ''charge'' = None"
    by (simp add: empty_def DataFrame_def)
  have c: "Str ''standardized_price'' \<notin> set (columns ex_no_price) \<and>
      Str ''charge'' \<notin> set (columns ex_no_price)"
    by (simp add: columns_def ex_no_price_def)
  show ?thesis
    using e c blank_when_unusable [of DataFrame "Some ''charge''" ex_pd ex_no_price]
    by blast
qed

text \<open>
  C6. A table with no column named \<open>datetime\<close> and no column whose lowered name contains
  \<open>date\<close> or \<open>time\<close> is prepared to a table with zero rows, and the figure built from it
  is the blank one.
\<close>

theorem no_timestamp_column_blank:
  assumes "Str ''datetime'' \<notin> set (columns t)"
    and "\<forall>c. Str c \<in> set (columns t) \<longrightarrow>
           \<not> sublist ''date'' (lower c) \<and> \<not> sublist ''time'' (lower c)"
  shows "\<exists>df pc. get_surface_data pd (Returns t) = Inr (df, pc) \<and> nrows df = 0 \<and>
           build_surface_figure pd (df, pc) = Inr Blank"
proof (cases "datetime_cols (columns t)")
  case (Inl e)
  with assms(1) have "ensure_datetime pd t = Inl e"
    by (simp add: ensure_datetime_def)
  then have "get_surface_data pd (Returns t) = Inr (DataFrame, None)"
    by (rule preparation_failed)
  then show ?thesis
    by (simp add: DataFrame_def)
next
  case (Inr r)
  have "r = []"
  proof (cases r)
    case Nil
    then show ?thesis .
  next
    case (Cons c r')
    with datetime_cols_Inr_mem [OF Inr, of c] assms(2) show ?thesis
      by auto
  qed
  with Inr assms(1) have e: "ensure_datetime pd t =
      Inr (setitem t (Str ''datetime'') (TimeCol (replicate (nrows t) None)))"
    by (simp add: ensure_datetime_no_match)
  from prepared_frame [OF e] assms(1) obtain df where
    g: "get_surface_data pd (Returns t) = Inr (df, choose_price t)"
    and n: "nrows df = length (filter (\<lambda>x. x \<noteq> None) (replicate (nrows t) (None :: stamp option)))"
    by blast
  from n have z: "nrows df = 0" by simp
  then have "build_surface_figure pd (df, choose_price t) = Inr Blank"
    by (intro build_blank) (simp add: empty_def)
  with g z show ?thesis by blast
qed

theorem no_timestamp_column_blank_witness:
  "Str ''datetime'' \<notin> set (columns ex_no_time) \<and>
   columns ex_no_time = [Str ''id'', Str ''standardized_price''] \<and>
   \<not> sublist ''date'' (lower ''id'') \<and> \<not> sublist ''time'' (lower ''id'') \<and>
   \<not> sublist ''date'' (lower ''standardized_price'') \<and>
   \<not> sublist ''time'' (lower ''standardized_price'') \<and>
   (\<exists>df pc. get_surface_data ex_pd (Returns ex_no_time) = Inr (df, pc) \<and> nrows df = 0 \<and>
           build_surface_figure ex_pd (df, pc) = Inr Blank)"
proof -
  have c: "columns ex_no_time = [Str ''id'', Str ''standardized_price'']"
    by (simp add: columns_def ex_no_time_def)
  have a: "Str ''datetime'' \<notin> set (columns ex_no_time)"
    by (simp add: c)
  have i: "\<not> sublist ''date'' (lower ''id'') \<and> \<not> sublist ''time'' (lower ''id'')"
    by code_simp
  have p: "\<not> sublist ''date'' (lower ''standardized_price'') \<and>
      \<not> sublist ''time'' (lower ''standardized_price'')"
    by code_simp
  have b: "\<forall>c. Str c \<in> set (columns ex_no_time) \<longrightarrow>
      \<not> sublist ''date'' (lower c) \<and> \<not> sublist ''time'' (lower c)"
    using i p by (auto simp: c)
  show ?thesis
    using a c i p no_timestamp_column_blank [OF a b, of ex_pd] by blast
qed

text \<open>
  C8 (as amended). The timestamp column that \<^verbatim>\<open>get_surface_data\<close> derives. When the label
  \<open>datetime\<close> occurs once and \<^verbatim>\<open>pd.to_datetime\<close> returns on its column, the prepared
  table holds, in row order, the timestamps it read, without the rows where it read
  none. When the label does not occur and all labels are strings, the same holds for
  the first column whose lowered name contains \<open>date\<close> or \<open>time\<close>; and with no such
  column every timestamp is missing and no row is left. When \<^verbatim>\<open>pd.to_datetime\<close> raises
  (it does on some columns in spite of \<^verbatim>\<open>errors="coerce"\<close>), when the label is repeated,
  or when the search meets a label that is not a string, the result is the empty frame
  with no price column.
\<close>

theorem timestamp_resolution:
  "(getitem t (Str ''datetime'') = Inr (Series c) \<and> to_datetime_of pd c = Inr f \<longrightarrow>
      (\<exists>df pc. get_surface_data pd (Returns t) = Inr (df, pc) \<and>
         getitem df (Str ''datetime'') =
           Inr (Series (TimeCol (filter (\<lambda>x. x \<noteq> None) (map f [0..<col_len c])))))) \<and>
   (Str ''datetime'' \<notin> set (columns t) \<and> columns t = map Str (pre @ c0 # post) \<and>
    (sublist ''date'' (lower c0) \<or> sublist ''time'' (lower c0)) \<and>
    (\<forall>c \<in> set pre. \<not> sublist ''date'' (lower c) \<and> \<not> sublist ''time'' (lower c)) \<and>
    getitem t (Str c0) = Inr (Series c) \<and> to_datetime_of pd c = Inr f \<longrightarrow>
      (\<exists>df pc. get_surface_data pd (Returns t) = Inr (df, pc) \<and>
         getitem df (Str ''datetime'') =
           Inr (Series (TimeCol (filter (\<lambda>x. x \<noteq> None) (map f [0..<col_len c])))))) \<and>
   (Str ''datetime'' \<notin> set (columns t) \<and> columns t = map Str ss \<and>
    (\<forall>c \<in> set ss. \<not> sublist ''date'' (lower c) \<and> \<not> sublist ''time'' (lower c)) \<longrightarrow>
      ensure_datetime pd t =
        Inr (setitem t (Str ''datetime'') (TimeCol (replicate (nrows t) None))) \<and>
      (\<exists>df pc. get_surface_data pd (Returns t) = Inr (df, pc) \<and> nrows df = 0 \<and>
         getitem df (Str ''datetime'') = Inr (Series (TimeCol [])))) \<and>
   ((getitem t (Str ''datetime'') = Inr (Series c) \<and> to_datetime_of pd c = Inl name) \<or>
    getitem t (Str ''datetime'') = Inr (Sub cs) \<or>
    (Str ''datetime'' \<notin> set (columns t) \<and> Obj k \<in> set (columns t)) \<or>
    (Str ''datetime'' \<notin> set (columns t) \<and> columns t = map Str (pre @ c0 # post) \<and>
     (sublist ''date'' (lower c0) \<or> sublist ''time'' (lower c0)) \<and>
     (\<forall>c \<in> set pre. \<not> sublist ''date'' (lower c) \<and> \<not> sublist ''time'' (lower c)) \<and>
     (getitem t (Str c0) = Inr (Sub cs) \<or>
      (getitem t (Str c0) = Inr (Series c) \<and> to_datetime_of pd c = Inl name))) \<longrightarrow>
      get_surface_data pd (Returns t) = Inr (DataFrame, None))"
proof (intro conjI impI)
  assume a: "getitem t (Str ''datetime'') = Inr (Series c) \<and> to_datetime_of pd c = Inr f"
  then have e: "ensure_datetime pd t =
      Inr (setitem t (Str ''datetime'') (TimeCol (map f [0..<col_len c])))"
    by (simp add: ensure_datetime_literal)
  from prepared_frame [OF e] a
  show "\<exists>df pc. get_surface_data pd (Returns t) = Inr (df, pc) \<and>
      getitem df (Str ''datetime'') =
        Inr (Series (TimeCol (filter (\<lambda>x. x \<noteq> None) (map f [0..<col_len c]))))"
    by blast
next
  assume a: "Str ''datetime'' \<notin> set (columns t) \<and> columns t = map Str (pre @ c0 # post) \<and>
    (sublist ''date'' (lower c0) \<or> sublist ''time'' (lower c0)) \<and>
    (\<forall>c \<in> set pre. \<not> sublist ''date'' (lower c) \<and> \<not> sublist ''time'' (lower c)) \<and>
    getitem t (Str c0) = Inr (Series c) \<and> to_datetime_of pd c = Inr f"
  then have h: "Str ''datetime'' \<notin> set (columns t)" "columns t = map Str (pre @ c0 # post)"
    "sublist ''date'' (lower c0) \<or> sublist ''time'' (lower c0)"
    "\<forall>c \<in> set pre. \<not> sublist ''date'' (lower c) \<and> \<not> sublist ''time'' (lower c)"
    and s: "getitem t (Str c0) = Inr (Series c)" "to_datetime_of pd c = Inr f"
    by blast+
  have e: "ensure_datetime pd t =
      Inr (setitem t (Str ''datetime'') (TimeCol (map f [0..<col_len c])))"
    unfolding ensure_datetime_first_match [OF h, of pd] by (simp add: s)
  from prepared_frame [OF e] a
  show "\<exists>df pc. get_surface_data pd (Returns t) = Inr (df, pc) \<and>
      getitem df (Str ''datetime'') =
        Inr (Series (TimeCol (filter (\<lambda>x. x \<noteq> None) (map f [0..<col_len c]))))"
    by blast
next
  assume a: "Str ''datetime'' \<notin> set (columns t) \<and> columns t = map Str ss \<and>
    (\<forall>c \<in> set ss. \<not> sublist ''date'' (lower c) \<and> \<not> sublist ''time'' (lower c))"
  then have n: "Str ''datetime'' \<notin> set (columns t)"
    and cs: "columns t = map Str ss"
    and nm: "\<forall>c \<in> set ss. \<not> sublist ''date'' (lower c) \<and> \<not> sublist ''time'' (lower c)"
    by blast+
  have d: "datetime_cols (columns t) = Inr []"
    unfolding cs datetime_cols_strings using nm by (simp add: filter_empty_conv)
  show e: "ensure_datetime pd t =
      Inr (setitem t (Str ''datetime'') (TimeCol (replicate (nrows t) None)))"
    using n d by (rule ensure_datetime_no_match)
  from prepared_frame [OF e] a obtain df where
    "get_surface_data pd (Returns t) = Inr (df, choose_price t)"
    and "getitem df (Str ''datetime'') =
      Inr (Series (TimeCol (filter (\<lambda>x. x \<noteq> None) (replicate (nrows t) None))))"
    and "nrows df = length (filter (\<lambda>x. x \<noteq> None) (replicate (nrows t) (None :: stamp option)))"
    by blast
  then show "\<exists>df pc. get_surface_data pd (Returns t) = Inr (df, pc) \<and> nrows df = 0 \<and>
      getitem df (Str ''datetime'') = Inr (Series (TimeCol []))"
    by auto
next
  assume a: "(getitem t (Str ''datetime'') = Inr (Series c) \<and> to_datetime_of pd c = Inl name) \<or>
    getitem t (Str ''datetime'') = Inr (Sub cs) \<or>
    (Str ''datetime'' \<notin> set (columns t) \<and> Obj k \<in> set (columns t)) \<or>
    (Str ''datetime'' \<notin> set (columns t) \<and> columns t = map Str (pre @ c0 # post) \<and>
     (sublist ''date'' (lower c0) \<or> sublist ''time'' (lower c0)) \<and>
     (\<forall>c \<in> set pre. \<not> sublist ''date'' (lower c) \<and> \<not> sublist ''time'' (lower c)) \<and>
     (getitem t (Str c0) = Inr (Sub cs) \<or>
      (getitem t (Str c0) = Inr (Series c) \<and> to_datetime_of pd c = Inl name)))"
  have "\<exists>e. ensure_datetime pd t = Inl e"
  proof -
    {
      assume "getitem t (Str ''datetime'') = Inr (Series c) \<and> to_datetime_of pd c = Inl name"
      then have ?thesis by (simp add: ensure_datetime_literal)
    }
    moreover {
      assume "getitem t (Str ''datetime'') = Inr (Sub cs)"
      then have ?thesis by (simp add: ensure_datetime_repeated)
    }
    moreover {
      assume "Str ''datetime'' \<notin> set (columns t) \<and> Obj k \<in> set (columns t)"
      then have ?thesis using ensure_datetime_not_string [of t k pd] by blast
    }
    moreover {
      assume b: "Str ''datetime'' \<notin> set (columns t) \<and> columns t = map Str (pre @ c0 # post) \<and>
        (sublist ''date'' (lower c0) \<or> sublist ''time'' (lower c0)) \<and>
        (\<forall>c \<in> set pre. \<not> sublist ''date'' (lower c) \<and> \<not> sublist ''time'' (lower c)) \<and>
        (getitem t (Str c0) = Inr (Sub cs) \<or>
         (getitem t (Str c0) = Inr (Series c) \<and> to_datetime_of pd c = Inl name))"
      then have h: "Str ''datetime'' \<notin> set (columns t)" "columns t = map Str (pre @ c0 # post)"
        "sublist ''date'' (lower c0) \<or> sublist ''time'' (lower c0)"
        "\<forall>c \<in> set pre. \<not> sublist ''date'' (lower c) \<and> \<not> sublist ''time'' (lower c)"
        by blast+
      from b have "getitem t (Str c0) = Inr (Sub cs) \<or>
         (getitem t (Str c0) = Inr (Series c) \<and> to_datetime_of pd c = Inl name)"
        by blast
      then have ?thesis
        unfolding ensure_datetime_first_match [OF h, of pd] by auto
    }
    ultimately show ?thesis using a by blast
  qed
  then show "get_surface_data pd (Returns t) = Inr (DataFrame, None)"
    using preparation_failed by blast
qed

theorem timestamp_resolution_witness:
  "Str ''datetime'' \<notin> set (columns ex_gaps) \<and>
   columns ex_gaps = map Str ([''id''] @ ''Sale_Date'' # [''charge'']) \<and>
   (sublist ''date'' (lower ''Sale_Date'') \<or> sublist ''time'' (lower ''Sale_Date'')) \<and>
   \<not> sublist ''date'' (lower ''id'') \<and> \<not> sublist ''time'' (lower ''id'') \<and>
   getitem ex_gaps (Str ''Sale_Date'')
     = Inr (Series (ObjCol [Some ''Jan-00h'', Some ''n/a'', Some ''Jan-00h'', Some ''Feb-00h''])) \<and>
   (\<exists>df pc. get_surface_data ex_pd (Returns ex_gaps) = Inr (df, pc) \<and>
      getitem df (Str ''datetime'') =
        Inr (Series (TimeCol [Some (mk_stamp 2024 1 1 0), Some (mk_stamp 2024 1 1 0),
                              Some (mk_stamp 2024 2 1 0)])))"
proof -
  let ?c = "ObjCol [Some ''Jan-00h'', Some ''n/a'', Some ''Jan-00h'', Some ''Feb-00h'']"
  let ?f = "\<lambda>i. if i < length [Some ''Jan-00h'', Some ''n/a'', Some ''Jan-00h'', Some ''Feb-00h'']
                 then ex_parse_cell ([Some ''Jan-00h'', Some ''n/a'', Some ''Jan-00h'', Some ''Feb-00h''] ! i)
                 else None"
  have a: "Str ''datetime'' \<notin> set (columns ex_gaps) \<and>
      columns ex_gaps = map Str ([''id''] @ ''Sale_Date'' # [''charge''])"
    by (simp add: columns_def ex_gaps_def)
  have b: "sublist ''date'' (lower ''Sale_Date'') \<or> sublist ''time'' (lower ''Sale_Date'')"
    by code_simp
  have i: "\<not> sublist ''date'' (lower ''id'') \<and> \<not> sublist ''time'' (lower ''id'')"
    by code_simp
  then have c: "\<forall>c \<in> set [''id'']. \<not> sublist ''date'' (lower c) \<and> \<not> sublist ''time'' (lower c)"
    by simp
  have g: "getitem ex_gaps (Str ''Sale_Date'') = Inr (Series ?c)"
    by (simp add: getitem_def ex_gaps_def)
  have p: "to_datetime_of ex_pd ?c = Inr ?f"
    by (simp add: ex_pd_def)
  have v: "filter (\<lambda>x. x \<noteq> None) (map ?f [0..<col_len ?c]) =
      [Some (mk_stamp 2024 1 1 0), Some (mk_stamp 2024 1 1 0), Some (mk_stamp 2024 2 1 0)]"
    by code_simp
  from a b c g p
    timestamp_resolution [where t = ex_gaps and pd = ex_pd and pre = "[''id'']"
      and ?c0.0 = "''Sale_Date''" and post = "[''charge'']" and c = ?c and f = ?f]
  have "\<exists>df pc. get_surface_data ex_pd (Returns ex_gaps) = Inr (df, pc) \<and>
      getitem df (Str ''datetime'') =
        Inr (Series (TimeCol (filter (\<lambda>x. x \<noteq> None) (map ?f [0..<col_len ?c]))))"
    by blast
  then have "\<exists>df pc. get_surface_data ex_pd (Returns ex_gaps) = Inr (df, pc) \<and>
      getitem df (Str ''datetime'') =
        Inr (Series (TimeCol [Some (mk_stamp 2024 1 1 0), Some (mk_stamp 2024 1 1 0),
                              Some (mk_stamp 2024 2 1 0)]))"
    unfolding v .
  with a b i g show ?thesis
    by blast
qed

text \<open>
  C8 as stated fails. The column named \<open>datetime\<close> holds timestamps with mixed UTC
  offsets: \<^verbatim>\<open>pd.to_datetime\<close> raises in line 27 instead of coercing, and no timestamp is
  resolved. And where a label is not a string, the search of lines 29 to 31 raises: the
  result is the empty frame, not a table whose timestamps are all missing.
\<close>

theorem timestamp_resolution_raises:
  "getitem ex_mixed_offsets (Str ''datetime'')
     = Inr (Series (ObjCol [Some ''Jan-00h+01'', Some ''Jan-00h+02''])) \<and>
   to_datetime ex_pd (Series (ObjCol [Some ''Jan-00h+01'', Some ''Jan-00h+02'']))
     = Inl (Exception ''ValueError'') \<and>
   get_surface_data ex_pd (Returns ex_mixed_offsets) = Inr (DataFrame, None) \<and>
   Str ''datetime'' \<notin> set (columns ex_number_label) \<and>
   ensure_datetime ex_pd ex_number_label = Inl (Exception ''AttributeError'') \<and>
   get_surface_data ex_pd (Returns ex_number_label) = Inr (DataFrame, None)"
proof (intro conjI)
  show "getitem ex_mixed_offsets (Str ''datetime'')
     = Inr (Series (ObjCol [Some ''Jan-00h+01'', Some ''Jan-00h+02'']))"
    by (simp add: getitem_def ex_mixed_offsets_def)
  show "to_datetime ex_pd (Series (ObjCol [Some ''Jan-00h+01'', Some ''Jan-00h+02'']))
     = Inl (Exception ''ValueError'')"
    by (simp add: ex_pd_def)
  show "get_surface_data ex_pd (Returns ex_mixed_offsets) = Inr (DataFrame, None)"
    by code_simp
  show "Str ''datetime'' \<notin> set (columns ex_number_label)"
    by (simp add: columns_def ex_number_label_def)
  show "ensure_datetime ex_pd ex_number_label = Inl (Exception ''AttributeError'')"
    by code_simp
  show "get_surface_data ex_pd (Returns ex_number_label) = Inr (DataFrame, None)"
    by code_simp
qed

section \<open>Properties of the memoised process\<close>

lemma build_body_heap:
  "i < length h \<Longrightarrow>
     length h \<le> length (snd (build_body pd h res)) \<and> snd (build_body pd h res) ! i = h ! i"
  by (cases res)
    (auto simp: build_body_def Let_def nth_append split: option.splits sum.splits)

lemma get_surface_data_cached_hit:
  "data_cache s = Some res \<Longrightarrow> get_surface_data_cached pd load_master s = (Inr res, s)"
  by (simp add: get_surface_data_cached_def)

lemma build_step_keeps_cache:
  assumes "cache_valid s" and "data_cache s = Some (a, pc)"
  shows "cache_valid (snd (build_surface_figure_cached pd load_master s)) \<and>
         data_cache (snd (build_surface_figure_cached pd load_master s)) = Some (a, pc) \<and>
         heap (snd (build_surface_figure_cached pd load_master s)) ! a = heap s ! a"
proof -
  from assms have a: "a < length (heap s)"
    by (simp add: cache_valid_def)
  show ?thesis
  proof (cases "figure_cache s")
    case (Some fig)
    with assms show ?thesis by (simp add: build_surface_figure_cached_def)
  next
    case None
    obtain r h where b: "build_body pd (heap s) (a, pc) = (r, h)"
      by (cases "build_body pd (heap s) (a, pc)")
    from build_body_heap [OF a, of pd "(a, pc)"] b
    have h: "length (heap s) \<le> length h \<and> h ! a = heap s ! a" by simp
    with None assms(2) a b show ?thesis
      by (cases r)
        (auto simp: build_surface_figure_cached_def get_surface_data_cached_hit cache_valid_def)
  qed
qed

lemma views_keep_cache:
  "cache_valid s \<Longrightarrow> data_cache s = Some (a, pc) \<Longrightarrow>
     data_cache (views n pd load_master s) = Some (a, pc) \<and>
     heap (views n pd load_master s) ! a = heap s ! a"
proof (induction n arbitrary: s)
  case 0
  then show ?case by simp
next
  case (Suc n)
  from build_step_keeps_cache [OF Suc.prems, of pd load_master]
  show ?case using Suc.IH [of "snd (build_surface_figure_cached pd load_master s)"]
    by simp
qed

lemma get_surface_data_cached_result:
  assumes "cache_valid s"
    and "get_surface_data_cached pd load_master s = (Inr (a, pc), s1)"
  shows "cache_valid s1 \<and> data_cache s1 = Some (a, pc) \<and>
         (data_cache s = None \<longrightarrow>
            get_surface_data pd (load_master (loads s)) = Inr (heap s1 ! a, pc))"
  using assms
  by (auto simp: get_surface_data_cached_def cache_valid_def
      split: option.splits sum.splits prod.splits)

lemma build_body_value:
  "a < length h \<Longrightarrow> fst (build_body pd h (a, pc)) = build_surface_figure pd (h ! a, pc)"
  by (cases pc)
    (auto simp: build_body_def Let_def nth_append split: sum.splits option.splits)

text \<open>
  C7. When a call of \<^verbatim>\<open>build_surface_figure()\<close> has returned a figure, the next call
  returns the same figure and leaves the process as it is, whatever \<^verbatim>\<open>load_master\<close> would
  return now.
\<close>

theorem second_build_identical:
  assumes "build_surface_figure_cached pd load_master s = (Inr fig, s')"
  shows "build_surface_figure_cached pd' load_master' s' = (Inr fig, s')"
proof -
  have "figure_cache s' = Some fig"
    using assms
    by (auto simp: build_surface_figure_cached_def split: option.splits sum.splits prod.splits)
  then show ?thesis
    by (simp add: build_surface_figure_cached_def)
qed

theorem second_build_identical_witness:
  "build_surface_figure_cached ex_pd ex_upstream start =
     (Inr (Surface [1, 2] [0, 1, 2]
        [[Finite 10, Finite 0], [Finite 15, Finite 5], [Finite 20, Finite 5]]),
      snd (build_surface_figure_cached ex_pd ex_upstream start)) \<and>
   build_surface_figure_cached ex_pd (\<lambda>k. Returns ex_two)
       (snd (build_surface_figure_cached ex_pd ex_upstream start)) =
     (Inr (Surface [1, 2] [0, 1, 2]
        [[Finite 10, Finite 0], [Finite 15, Finite 5], [Finite 20, Finite 5]]),
      snd (build_surface_figure_cached ex_pd ex_upstream start))"
proof -
  have "fst (build_surface_figure_cached ex_pd ex_upstream start) =
      Inr (Surface [1, 2] [0, 1, 2]
        [[Finite 10, Finite 0], [Finite 15, Finite 5], [Finite 20, Finite 5]])"
    by code_simp
  then have h: "build_surface_figure_cached ex_pd ex_upstream start =
     (Inr (Surface [1, 2] [0, 1, 2]
        [[Finite 10, Finite 0], [Finite 15, Finite 5], [Finite 20, Finite 5]]),
      snd (build_surface_figure_cached ex_pd ex_upstream start))"
    by (metis prod.collapse)
  show ?thesis
    using h second_build_identical [OF h, of ex_pd "\<lambda>k. Returns ex_two"] by simp
qed

text \<open>
  C10. The frame that \<^verbatim>\<open>get_surface_data\<close> returned and cached is not written to by
  \<^verbatim>\<open>build_surface_figure\<close>: after any number of calls the cache holds the same reference
  and price column, and the frame behind the reference is the one preparation produced.
\<close>

theorem prepared_frame_not_mutated:
  assumes "cache_valid s"
    and "get_surface_data_cached pd load_master s = (Inr (a, pc), s1)"
  shows "data_cache (views n pd' load_master' s1) = Some (a, pc) \<and>
         heap (views n pd' load_master' s1) ! a = heap s1 ! a \<and>
         (data_cache s = None \<longrightarrow>
            get_surface_data pd (load_master (loads s)) = Inr (heap s1 ! a, pc))"
proof -
  from get_surface_data_cached_result [OF assms]
  have v: "cache_valid s1" and d: "data_cache s1 = Some (a, pc)"
    and p: "data_cache s = None \<longrightarrow>
            get_surface_data pd (load_master (loads s)) = Inr (heap s1 ! a, pc)"
    by blast+
  from views_keep_cache [OF v d, of n pd' load_master'] p show ?thesis by blast
qed

theorem prepared_frame_not_mutated_witness:
  "cache_valid start \<and>
   data_cache (views 3 ex_pd ex_upstream (snd (get_surface_data_cached ex_pd ex_upstream start)))
     = Some (0, Some ''standardized_price'') \<and>
   heap (views 3 ex_pd ex_upstream (snd (get_surface_data_cached ex_pd ex_upstream start))) ! 0
     = heap (snd (get_surface_data_cached ex_pd ex_upstream start)) ! 0 \<and>
   columns (heap (views 3 ex_pd ex_upstream (snd (get_surface_data_cached ex_pd ex_upstream start))) ! 0)
     = [Str ''datetime'', Str ''standardized_price'']"
proof -
  have v: "cache_valid start"
    by (simp add: cache_valid_def start_def)
  have "fst (get_surface_data_cached ex_pd ex_upstream start) = Inr (0, Some ''standardized_price'')"
    by code_simp
  then have g: "get_surface_data_cached ex_pd ex_upstream start =
      (Inr (0, Some ''standardized_price''), snd (get_surface_data_cached ex_pd ex_upstream start))"
    by (metis prod.collapse)
  have c: "columns (heap (snd (get_surface_data_cached ex_pd ex_upstream start)) ! 0)
     = [Str ''datetime'', Str ''standardized_price'']"
    by code_simp
  show ?thesis
    using v c prepared_frame_not_mutated [OF v g, of 3 ex_pd ex_upstream] by simp
qed

section \<open>Properties of the pivot\<close>

lemma set_somes: "set (somes xs) = {v. Some v \<in> set xs}"
  by (induction xs rule: somes.induct) auto

lemma mean_Some_mem: "mean pd xs \<noteq> None \<Longrightarrow> \<exists>v. Some v \<in> set xs"
proof -
  assume "mean pd xs \<noteq> None"
  then have "somes xs \<noteq> []"
    by (auto simp: mean_def Let_def)
  then have "set (somes xs) \<noteq> {}"
    by simp
  then show ?thesis
    by (auto simp: set_somes)
qed

lemma agg_mean_keys: "map fst (agg_mean pd recs) = remdups (map fst recs)"
  by (simp add: agg_mean_def comp_def)

lemma set_agg_mean:
  "(k, a) \<in> set (agg_mean pd recs) \<longleftrightarrow>
     k \<in> fst ` set recs \<and> a = mean pd (map snd (filter (\<lambda>r. fst r = k) recs))"
  by (auto simp: agg_mean_def)

lemma distinct_kept: "distinct (map fst (dropna_all (agg_mean pd recs)))"
  by (simp add: dropna_all_def distinct_map_filter agg_mean_keys)

lemma mean_group_key:
  assumes "mean pd (map snd (filter (\<lambda>r. fst r = k) recs)) \<noteq> None"
  shows "k \<in> fst ` set recs"
proof -
  from mean_Some_mem [OF assms]
  obtain v where "Some v \<in> set (map snd (filter (\<lambda>r. fst r = k) recs))"
    by blast
  then obtain r where "r \<in> set recs" "fst r = k"
    by auto
  then show ?thesis by auto
qed

lemma set_kept:
  "(k, a) \<in> set (dropna_all (agg_mean pd recs)) \<longleftrightarrow>
     a \<noteq> None \<and> a = mean pd (map snd (filter (\<lambda>r. fst r = k) recs))"
  using mean_group_key [of pd k recs] by (auto simp: dropna_all_def set_agg_mean)

lemma cell_value:
  "(case map_of (dropna_all (agg_mean pd recs)) k of None \<Rightarrow> None | Some a \<Rightarrow> a)
     = mean pd (map snd (filter (\<lambda>r. fst r = k) recs))"
proof (cases "mean pd (map snd (filter (\<lambda>r. fst r = k) recs))")
  case None
  then have "k \<notin> fst ` set (dropna_all (agg_mean pd recs))"
    by (auto simp: set_kept)
  then have "map_of (dropna_all (agg_mean pd recs)) k = None"
    by (simp add: map_of_eq_None_iff)
  with None show ?thesis by simp
next
  case (Some v)
  then have "(k, Some v) \<in> set (dropna_all (agg_mean pd recs))"
    by (simp add: set_kept)
  then have "map_of (dropna_all (agg_mean pd recs)) k = Some (Some v)"
    using distinct_kept [of pd recs] by simp
  with Some show ?thesis by simp
qed

lemma index_unstack:
  "index (unstack kept) = sort (remdups (map (\<lambda>((h, m), a). h) kept))"
  by (simp add: unstack_def Let_def)

lemma pcolumns_unstack:
  "pcolumns (unstack kept) = sort (remdups (map (\<lambda>((h, m), a). m) kept))"
  by (simp add: unstack_def Let_def)

lemma pvalues_unstack:
  "pvalues (unstack kept) =
     map (\<lambda>h. map (\<lambda>m. (case map_of kept (h, m) of None \<Rightarrow> None | Some a \<Rightarrow> a))
            (pcolumns (unstack kept))) (index (unstack kept))"
  by (simp add: unstack_def Let_def)

lemma set_index_unstack: "set (index (unstack kept)) = (\<lambda>x. fst (fst x)) ` set kept"
proof -
  have "(\<lambda>((h, m), a). h) = (\<lambda>x :: (int \<times> int) \<times> f64 option. fst (fst x))"
    by (auto simp: fun_eq_iff)
  then show ?thesis by (simp add: index_unstack)
qed

lemma set_pcolumns_unstack: "set (pcolumns (unstack kept)) = (\<lambda>x. snd (fst x)) ` set kept"
proof -
  have "(\<lambda>((h, m), a). m) = (\<lambda>x :: (int \<times> int) \<times> f64 option. snd (fst x))"
    by (auto simp: fun_eq_iff)
  then show ?thesis by (simp add: pcolumns_unstack)
qed

lemma set_index_pivot:
  "set (index (unstack (dropna_all (agg_mean pd recs)))) =
     {h. \<exists>m. mean pd (map snd (filter (\<lambda>r. fst r = (h, m)) recs)) \<noteq> None}"
proof (intro set_eqI iffI)
  fix h
  assume "h \<in> set (index (unstack (dropna_all (agg_mean pd recs))))"
  then obtain k a where "(k, a) \<in> set (dropna_all (agg_mean pd recs))" "fst k = h"
    by (auto simp: set_index_unstack)
  then have "mean pd (map snd (filter (\<lambda>r. fst r = (h, snd k)) recs)) \<noteq> None"
    by (cases k) (auto simp: set_kept)
  then show "h \<in> {h. \<exists>m. mean pd (map snd (filter (\<lambda>r. fst r = (h, m)) recs)) \<noteq> None}"
    by blast
next
  fix h
  assume "h \<in> {h. \<exists>m. mean pd (map snd (filter (\<lambda>r. fst r = (h, m)) recs)) \<noteq> None}"
  then obtain m v where "mean pd (map snd (filter (\<lambda>r. fst r = (h, m)) recs)) = Some v"
    by auto
  then have "((h, m), Some v) \<in> set (dropna_all (agg_mean pd recs))"
    by (simp add: set_kept)
  then show "h \<in> set (index (unstack (dropna_all (agg_mean pd recs))))"
    by (force simp: set_index_unstack)
qed

lemma set_pcolumns_pivot:
  "set (pcolumns (unstack (dropna_all (agg_mean pd recs)))) =
     {m. \<exists>h. mean pd (map snd (filter (\<lambda>r. fst r = (h, m)) recs)) \<noteq> None}"
proof (intro set_eqI iffI)
  fix m
  assume "m \<in> set (pcolumns (unstack (dropna_all (agg_mean pd recs))))"
  then obtain k a where "(k, a) \<in> set (dropna_all (agg_mean pd recs))" "snd k = m"
    by (auto simp: set_pcolumns_unstack)
  then have "mean pd (map snd (filter (\<lambda>r. fst r = (fst k, m)) recs)) \<noteq> None"
    by (cases k) (auto simp: set_kept)
  then show "m \<in> {m. \<exists>h. mean pd (map snd (filter (\<lambda>r. fst r = (h, m)) recs)) \<noteq> None}"
    by blast
next
  fix m
  assume "m \<in> {m. \<exists>h. mean pd (map snd (filter (\<lambda>r. fst r = (h, m)) recs)) \<noteq> None}"
  then obtain h v where "mean pd (map snd (filter (\<lambda>r. fst r = (h, m)) recs)) = Some v"
    by auto
  then have "((h, m), Some v) \<in> set (dropna_all (agg_mean pd recs))"
    by (simp add: set_kept)
  then show "m \<in> set (pcolumns (unstack (dropna_all (agg_mean pd recs))))"
    by (force simp: set_pcolumns_unstack)
qed

lemma sorted_distinct_axes:
  "sorted (index (unstack kept)) \<and> distinct (index (unstack kept)) \<and>
   sorted (pcolumns (unstack kept)) \<and> distinct (pcolumns (unstack kept))"
  by (simp add: index_unstack pcolumns_unstack)

lemma pivot_cell:
  assumes "i < length (index (unstack (dropna_all (agg_mean pd recs))))"
    and "j < length (pcolumns (unstack (dropna_all (agg_mean pd recs))))"
  shows "pvalues (unstack (dropna_all (agg_mean pd recs))) ! i ! j =
     mean pd (map snd (filter (\<lambda>r. fst r =
        (index (unstack (dropna_all (agg_mean pd recs))) ! i,
         pcolumns (unstack (dropna_all (agg_mean pd recs))) ! j)) recs))"
  using assms by (simp add: pvalues_unstack [of "dropna_all (agg_mean pd recs)"] cell_value)

lemma length_pvalues_unstack:
  "length (pvalues (unstack kept)) = length (index (unstack kept)) \<and>
   (\<forall>i < length (index (unstack kept)).
       length (pvalues (unstack kept) ! i) = length (pcolumns (unstack kept)))"
  by (simp add: pvalues_unstack [of kept])

lemma pivot_column_observed:
  assumes "j < length (pcolumns (unstack (dropna_all (agg_mean pd recs))))"
  shows "\<exists>i < length (index (unstack (dropna_all (agg_mean pd recs)))).
           pvalues (unstack (dropna_all (agg_mean pd recs))) ! i ! j \<noteq> None"
proof -
  let ?pv = "unstack (dropna_all (agg_mean pd recs))"
  from assms have "pcolumns ?pv ! j \<in> set (pcolumns ?pv)"
    by simp
  then obtain h where h: "mean pd (map snd (filter (\<lambda>r. fst r = (h, pcolumns ?pv ! j)) recs)) \<noteq> None"
    by (auto simp: set_pcolumns_pivot)
  then have "h \<in> set (index ?pv)"
    by (auto simp: set_index_pivot)
  then obtain i where i: "i < length (index ?pv)" "index ?pv ! i = h"
    by (auto simp: in_set_conv_nth)
  with h pivot_cell [OF i(1) assms] show ?thesis
    by auto
qed

section \<open>Properties of the interpolation\<close>

lemma length_interpolate_col: "length (interpolate_col pd ys) = length ys"
  by (simp add: interpolate_col_def split: list.splits)


lemma length_column_of: "length (column_of j rows) = length rows"
  by (simp add: column_of_def)

lemma interpolate_axes:
  "index (interpolate pd pv) = index pv \<and> pcolumns (interpolate pd pv) = pcolumns pv"
  by (simp add: interpolate_def)

lemma surface_shape:
  "length (fillna d (pvalues (interpolate pd pv))) = length (index pv) \<and>
   (\<forall>row \<in> set (fillna d (pvalues (interpolate pd pv))). length row = length (pcolumns pv))"
  by (auto simp: fillna_def interpolate_def)

lemma points_from_append:
  "points_from p (l @ r) = points_from p l @ points_from (p + length l) r"
  by (induction p l rule: points_from.induct) simp_all

lemma points_from_replicate_None: "points_from p (replicate g None) = []"
  by (induction g arbitrary: p) simp_all

lemma points_from_bounds:
  "(q, v) \<in> set (points_from p l) \<Longrightarrow> p \<le> q \<and> q < p + length l"
  by (induction p l rule: points_from.induct) fastforce+

lemma np_interp_between:
  assumes "\<forall>(p, v) \<in> set pre. p < n" and "n < x" and "x < q"
  shows "np_interp pd (pre @ (n, a) # (q, b) # post) x = interp_of pd n a q b x"
  using assms(1)
proof (induction pre)
  case Nil
  from assms(2,3) show ?case by simp
next
  case (Cons pv pre)
  obtain p v where pv: "pv = (p, v)" by (cases pv)
  with Cons.prems have p: "p < n" by simp
  from Cons.prems have rest: "\<forall>(p, v) \<in> set pre. p < n" by simp
  show ?case
  proof (cases pre)
    case Nil
    with pv p assms(2,3) show ?thesis by simp
  next
    case (Cons qw pre')
    obtain q' w' where qw: "qw = (q', w')" by (cases qw)
    with Cons rest have "q' < n" by simp
    with pv p qw Cons assms(2) Cons.IH [OF rest] show ?thesis by simp
  qed
qed

lemma interpolate_col_gap:
  assumes "t < g"
  shows "interpolate_col pd (l @ Some a # replicate g None @ Some b # r) ! (length l + 1 + t)
     = interp_of pd (length l) a (length l + g + 1) b (length l + 1 + t)"
proof -
  let ?ys = "l @ Some a # replicate g None @ Some b # r"
  let ?n = "length l"
  let ?x = "length l + 1 + t"
  let ?pre = "points_from 0 l"
  let ?post = "points_from (?n + g + 2) r"
  have pts: "points_from 0 ?ys = ?pre @ (?n, a) # (?n + g + 1, b) # ?post"
    by (simp add: points_from_append points_from_replicate_None add.commute add.left_commute)
  have pre: "\<forall>(p, v) \<in> set ?pre. p < ?n"
    using points_from_bounds [of _ _ 0 l] by auto
  have val: "np_interp pd (points_from 0 ?ys) ?x
      = interp_of pd ?n a (?n + g + 1) b ?x"
    unfolding pts using np_interp_between [OF pre, of ?x "?n + g + 1" pd a b ?post] assms
    by simp
  have len: "?x < length ?ys"
    using assms by simp
  have none: "?ys ! ?x = None"
    using assms by (simp add: nth_append nth_Cons')
  have "points_from 0 ?ys \<noteq> []"
    unfolding pts by simp
  then obtain p0 v0 rest where hd: "points_from 0 ?ys = (p0, v0) # rest"
    by (cases "points_from 0 ?ys") auto
  have "p0 \<le> ?n"
  proof (cases ?pre)
    case Nil
    with pts hd show ?thesis by simp
  next
    case (Cons pv pre')
    with pts hd have "(p0, v0) \<in> set ?pre" by simp
    with pre show ?thesis by auto
  qed
  then have "\<not> ?x < p0" by simp
  with len none hd val show ?thesis
    by (simp add: interpolate_col_def del: upt_Suc)
qed

lemma grid_at_interpolated:
  assumes "distinct (index pv)" and "distinct (pcolumns pv)"
    and "i < length (index pv)" and "j < length (pcolumns pv)"
  shows "grid_at (Surface (pcolumns (interpolate pd pv)) (index (interpolate pd pv))
            (fillna d (pvalues (interpolate pd pv)))) (index pv ! i) (pcolumns pv ! j)
     = Some (case interpolate_col pd (column_of j (pvalues pv)) ! i of None \<Rightarrow> d | Some v \<Rightarrow> v)"
proof -
  let ?zs = "fillna d (pvalues (interpolate pd pv))"
  have l: "length (index pv) = length ?zs"
    by (simp add: fillna_def interpolate_def)
  have row: "?zs ! i = map (\<lambda>j. case interpolate_col pd (column_of j (pvalues pv)) ! i of
                 None \<Rightarrow> d | Some v \<Rightarrow> v) [0..<length (pcolumns pv)]"
    using assms(3) by (simp add: fillna_def interpolate_def)
  have 1: "map_of (zip (index pv) ?zs) (index pv ! i) = Some (?zs ! i)"
    using l assms(1,3) by (intro map_of_zip_nth) simp_all
  have 2: "map_of (zip (pcolumns pv) (?zs ! i)) (pcolumns pv ! j) = Some (?zs ! i ! j)"
    using assms(2,4) by (intro map_of_zip_nth) (simp_all add: row)
  have "?zs ! i ! j = (case interpolate_col pd (column_of j (pvalues pv)) ! i of
                 None \<Rightarrow> d | Some v \<Rightarrow> v)"
    using assms(4) by (simp add: row)
  with 1 2 show ?thesis
    by (simp add: grid_at_def interpolate_axes)
qed


section \<open>Properties of the surface builder\<close>

lemma dt_ranges: "1 \<le> dt_month s \<and> dt_month s \<le> 12 \<and> dt_hour s < 24"
  by transfer auto

lemma distinct_setitem:
  "distinct (columns df) \<Longrightarrow> distinct (columns (setitem df name c))"
  by (simp add: columns_setitem)

lemma getitem_setitem_distinct:
  assumes "distinct (columns df)"
  shows "getitem (setitem df name c) name = Inr (Series c)"
proof (rule getitem_setitem_same)
  show "name \<notin> set (columns df) \<or> (\<exists>c0. getitem df name = Inr (Series c0))"
    using getitem_distinct [OF assms, of name] by blast
qed



lemma build_numeric:
  assumes "getitem df (Str ''datetime'') = Inr (Series (TimeCol ts))"
    and "getitem df (Str pc) = Inr (Series pcol)"
    and "price_values pcol = Some ps"
    and "distinct (columns df)"
    and "pc \<noteq> ''month''" and "pc \<noteq> ''hour''"
    and "\<not> empty df"
  shows "build_surface_figure pd (df, Some pc) =
     Inr (Surface
       (pcolumns (interpolate pd (unstack (dropna_all (agg_mean pd
          (records (map (map_option (\<lambda>s. int (dt_hour s))) ts)
                   (map (map_option (\<lambda>s. int (dt_month s))) ts) ps))))))
       (index (interpolate pd (unstack (dropna_all (agg_mean pd
          (records (map (map_option (\<lambda>s. int (dt_hour s))) ts)
                   (map (map_option (\<lambda>s. int (dt_month s))) ts) ps))))))
       (fillna (Finite 0) (pvalues (interpolate pd (unstack (dropna_all (agg_mean pd
          (records (map (map_option (\<lambda>s. int (dt_hour s))) ts)
                   (map (map_option (\<lambda>s. int (dt_month s))) ts) ps))))))))"
proof -
  let ?mc = "IntCol (map (map_option (\<lambda>s. int (dt_month s))) ts)"
  let ?hc = "IntCol (map (map_option (\<lambda>s. int (dt_hour s))) ts)"
  let ?df1 = "setitem df (Str ''month'') ?mc"
  let ?df2 = "setitem ?df1 (Str ''hour'') ?hc"
  have m: "dt_field dt_month df = Inr ?mc"
    by (simp add: dt_field_def assms(1))
  have "getitem ?df1 (Str ''datetime'') = Inr (Series (TimeCol ts))"
    by (simp add: getitem_setitem_other assms(1))
  then have h: "dt_field dt_hour ?df1 = Inr ?hc"
    by (simp add: dt_field_def)
  have d1: "distinct (columns ?df1)"
    using assms(4) by (rule distinct_setitem)
  have gh: "getitem ?df2 (Str ''hour'') = Inr (Series ?hc)"
    using d1 by (rule getitem_setitem_distinct)
  have "getitem ?df1 (Str ''month'') = Inr (Series ?mc)"
    using assms(4) by (rule getitem_setitem_distinct)
  then have gm: "getitem ?df2 (Str ''month'') = Inr (Series ?mc)"
    by (simp add: getitem_setitem_other)
  have gp: "getitem ?df2 (Str pc) = Inr (Series pcol)"
    using assms(2,5,6) by (simp add: getitem_setitem_other)
  have "pivot_table pd ?df2 (Str ''hour'') (Str ''month'') (Str pc) =
      Inr (Some (unstack (dropna_all (agg_mean pd
          (records (map (map_option (\<lambda>s. int (dt_hour s))) ts)
                   (map (map_option (\<lambda>s. int (dt_month s))) ts) ps)))))"
    using assms(3) by (cases pcol) (simp_all add: pivot_table_def gh gm gp)
  with m h assms(7) show ?thesis
    by (simp add: Let_def)
qed

lemma group_prices_at:
  "map snd (filter (\<lambda>r. fst r = (int h, int m))
      (records (map (map_option (\<lambda>s. int (dt_hour s))) ts)
               (map (map_option (\<lambda>s. int (dt_month s))) ts) ps))
   = prices_at ts ps h m"
proof (induction ts arbitrary: ps)
  case Nil
  then show ?case by (simp add: records_def prices_at_def)
next
  case (Cons t ts)
  show ?case
  proof (cases ps)
    case Nil
    then show ?thesis by (simp add: records_def prices_at_def)
  next
    case (Cons p ps')
    with Cons.IH [of ps'] show ?thesis
      by (cases t) (auto simp: records_def prices_at_def)
  qed
qed

lemma set_records:
  "set (records (map (map_option (\<lambda>s. int (dt_hour s))) ts)
                (map (map_option (\<lambda>s. int (dt_month s))) ts) ps)
   = {((int (dt_hour s), int (dt_month s)), p) |s p. (Some s, p) \<in> set (zip ts ps)}"
proof (induction ts arbitrary: ps)
  case Nil
  then show ?case by (simp add: records_def)
next
  case (Cons t ts)
  show ?case
  proof (cases ps)
    case Nil
    then show ?thesis by (simp add: records_def)
  next
    case (Cons p ps')
    from Cons.IH [of ps'] have ih:
      "set (somes (map keyed (zip (map (map_option (\<lambda>s. int (dt_hour s))) ts)
          (zip (map (map_option (\<lambda>s. int (dt_month s))) ts) ps'))))
       = {((int (dt_hour s), int (dt_month s)), p) |s p. (Some s, p) \<in> set (zip ts ps')}"
      by (simp add: records_def)
    show ?thesis
    proof (cases t)
      case None
      with Cons ih show ?thesis by (auto simp: records_def)
    next
      case (Some s)
      with Cons ih show ?thesis by (auto simp: records_def)
    qed
  qed
qed


lemma group_key_stamp:
  assumes "mean pd (map snd (filter (\<lambda>r. fst r = (h, m))
      (records (map (map_option (\<lambda>s. int (dt_hour s))) ts)
               (map (map_option (\<lambda>s. int (dt_month s))) ts) ps))) \<noteq> None"
  shows "\<exists>s. h = int (dt_hour s) \<and> m = int (dt_month s)"
proof -
  from mean_group_key [OF assms] obtain r where
    "r \<in> set (records (map (map_option (\<lambda>s. int (dt_hour s))) ts)
               (map (map_option (\<lambda>s. int (dt_month s))) ts) ps)" and "fst r = (h, m)"
    by auto
  then show ?thesis
    unfolding set_records by auto
qed

lemma set_pcolumns_records:
  "set (pcolumns (unstack (dropna_all (agg_mean pd
      (records (map (map_option (\<lambda>s. int (dt_hour s))) ts)
               (map (map_option (\<lambda>s. int (dt_month s))) ts) ps)))))
   = {int m |h m. mean pd (prices_at ts ps h m) \<noteq> None}"
proof (intro set_eqI iffI)
  fix x
  assume "x \<in> set (pcolumns (unstack (dropna_all (agg_mean pd
      (records (map (map_option (\<lambda>s. int (dt_hour s))) ts)
               (map (map_option (\<lambda>s. int (dt_month s))) ts) ps)))))"
  then obtain h where g: "mean pd (map snd (filter (\<lambda>r. fst r = (h, x))
      (records (map (map_option (\<lambda>s. int (dt_hour s))) ts)
               (map (map_option (\<lambda>s. int (dt_month s))) ts) ps))) \<noteq> None"
    by (auto simp: set_pcolumns_pivot)
  from group_key_stamp [OF g] obtain s where s: "h = int (dt_hour s)" "x = int (dt_month s)"
    by blast
  from g have "mean pd (prices_at ts ps (dt_hour s) (dt_month s)) \<noteq> None"
    unfolding s group_prices_at .
  with s show "x \<in> {int m |h m. mean pd (prices_at ts ps h m) \<noteq> None}"
    by blast
next
  fix x
  assume "x \<in> {int m |h m. mean pd (prices_at ts ps h m) \<noteq> None}"
  then obtain h m where "x = int m" and "mean pd (prices_at ts ps h m) \<noteq> None"
    by blast
  then have "mean pd (map snd (filter (\<lambda>r. fst r = (int h, x))
      (records (map (map_option (\<lambda>s. int (dt_hour s))) ts)
               (map (map_option (\<lambda>s. int (dt_month s))) ts) ps))) \<noteq> None"
    using group_prices_at [of h m ts ps] by simp
  then show "x \<in> set (pcolumns (unstack (dropna_all (agg_mean pd
      (records (map (map_option (\<lambda>s. int (dt_hour s))) ts)
               (map (map_option (\<lambda>s. int (dt_month s))) ts) ps)))))"
    unfolding set_pcolumns_pivot by blast
qed

lemma set_index_records:
  "set (index (unstack (dropna_all (agg_mean pd
      (records (map (map_option (\<lambda>s. int (dt_hour s))) ts)
               (map (map_option (\<lambda>s. int (dt_month s))) ts) ps)))))
   = {int h |h m. mean pd (prices_at ts ps h m) \<noteq> None}"
proof (intro set_eqI iffI)
  fix x
  assume "x \<in> set (index (unstack (dropna_all (agg_mean pd
      (records (map (map_option (\<lambda>s. int (dt_hour s))) ts)
               (map (map_option (\<lambda>s. int (dt_month s))) ts) ps)))))"
  then obtain m where g: "mean pd (map snd (filter (\<lambda>r. fst r = (x, m))
      (records (map (map_option (\<lambda>s. int (dt_hour s))) ts)
               (map (map_option (\<lambda>s. int (dt_month s))) ts) ps))) \<noteq> None"
    by (auto simp: set_index_pivot)
  from group_key_stamp [OF g] obtain s where s: "x = int (dt_hour s)" "m = int (dt_month s)"
    by blast
  from g have "mean pd (prices_at ts ps (dt_hour s) (dt_month s)) \<noteq> None"
    unfolding s group_prices_at .
  with s show "x \<in> {int h |h m. mean pd (prices_at ts ps h m) \<noteq> None}"
    by blast
next
  fix x
  assume "x \<in> {int h |h m. mean pd (prices_at ts ps h m) \<noteq> None}"
  then obtain h m where "x = int h" and "mean pd (prices_at ts ps h m) \<noteq> None"
    by blast
  then have "mean pd (map snd (filter (\<lambda>r. fst r = (x, int m))
      (records (map (map_option (\<lambda>s. int (dt_hour s))) ts)
               (map (map_option (\<lambda>s. int (dt_month s))) ts) ps))) \<noteq> None"
    using group_prices_at [of h m ts ps] by simp
  then show "x \<in> set (index (unstack (dropna_all (agg_mean pd
      (records (map (map_option (\<lambda>s. int (dt_hour s))) ts)
               (map (map_option (\<lambda>s. int (dt_month s))) ts) ps)))))"
    unfolding set_index_pivot by blast
qed

lemma prices_at_stamp:
  assumes "mean pd (prices_at ts ps h m) \<noteq> None"
  shows "\<exists>s. Some s \<in> set ts \<and> dt_hour s = h \<and> dt_month s = m"
proof -
  from mean_Some_mem [OF assms] have "prices_at ts ps h m \<noteq> []"
    by auto
  then obtain s p where "(s, p) \<in> set (zip ts ps)"
    and "case s of None \<Rightarrow> False | Some st \<Rightarrow> dt_hour st = h \<and> dt_month st = m"
    by (auto simp: prices_at_def filter_empty_conv)
  then show ?thesis
    by (cases s) (auto dest: set_zip_leftD)
qed

lemma prepared_of_eq:
  "get_surface_data pd (Returns t) = Inr (df, pc) \<Longrightarrow> prepared_of pd t = df"
  by (simp add: prepared_of_def)




text \<open>
  C9 (as amended). For a prepared table that is not empty, made from a table with
  distinct column labels, with a resolved price column that is numeric, the figure is a
  surface whose x axis lists, sorted and without repetition, the months (1 to 12) of the
  hour and month groups whose mean price is not NaN, whose y axis lists likewise their
  hours (0 to 23), and whose grid has one row per y value and one cell per x value in
  each row.
\<close>

theorem surface_axes_aligned:
  assumes "get_surface_data pd (Returns t) = Inr (df, Some pc)"
    and "\<not> empty df"
    and "distinct (columns t)"
    and "getitem df (Str pc) = Inr (Series pcol)"
    and "price_values pcol = Some ps"
  shows "\<exists>ts xs ys zs.
     getitem df (Str ''datetime'') = Inr (Series (TimeCol ts)) \<and>
     build_surface_figure pd (df, Some pc) = Inr (Surface xs ys zs) \<and>
     sorted xs \<and> distinct xs \<and>
     set xs = {int m |h m. mean pd (prices_at ts ps h m) \<noteq> None} \<and>
     (\<forall>x \<in> set xs. \<exists>m. 1 \<le> m \<and> m \<le> 12 \<and> x = int m) \<and>
     sorted ys \<and> distinct ys \<and>
     set ys = {int h |h m. mean pd (prices_at ts ps h m) \<noteq> None} \<and>
     (\<forall>y \<in> set ys. \<exists>h. h < 24 \<and> y = int h) \<and>
     length zs = length ys \<and> (\<forall>row \<in> set zs. length row = length xs)"
proof -
  have "\<exists>t1. ensure_datetime pd t = Inr t1"
  proof (cases "ensure_datetime pd t")
    case (Inl e)
    from preparation_failed [OF Inl] assms(1) show ?thesis by simp
  next
    case (Inr t1)
    then show ?thesis by blast
  qed
  then obtain t1 where e1: "ensure_datetime pd t = Inr t1"
    by blast
  from ensure_datetime_Inr [OF e1] obtain ts0 where
    e: "ensure_datetime pd t = Inr (setitem t (Str ''datetime'') (TimeCol ts0))"
    and u: "Str ''datetime'' \<notin> set (columns t) \<or>
            (\<exists>c0. getitem t (Str ''datetime'') = Inr (Series c0))"
    using e1 by blast
  let ?ts = "filter (\<lambda>x. x \<noteq> None) ts0"
  from prepared_frame [OF e u] assms(1)
  have dc: "getitem df (Str ''datetime'') = Inr (Series (TimeCol ?ts))"
    and cp: "choose_price t = Some pc"
    and cl: "columns df = columns (setitem t (Str ''datetime'') (TimeCol ts0))"
    by auto
  from cp have "pc = ''standardized_price'' \<or> pc = ''charge''"
    by (auto simp: choose_price_def split: if_splits)
  then have pn: "pc \<noteq> ''month''" "pc \<noteq> ''hour''"
    by auto
  have dcols: "distinct (columns df)"
    unfolding cl using assms(3) by (rule distinct_setitem)
  let ?recs = "records (map (map_option (\<lambda>s. int (dt_hour s))) ?ts)
                       (map (map_option (\<lambda>s. int (dt_month s))) ?ts) ps"
  let ?pv = "unstack (dropna_all (agg_mean pd ?recs))"
  let ?xs = "pcolumns (interpolate pd ?pv)"
  let ?ys = "index (interpolate pd ?pv)"
  let ?zs = "fillna (Finite 0) (pvalues (interpolate pd ?pv))"
  have b: "build_surface_figure pd (df, Some pc) = Inr (Surface ?xs ?ys ?zs)"
    by (rule build_numeric [OF dc assms(4,5) dcols pn assms(2)])
  have ax: "?xs = pcolumns ?pv" "?ys = index ?pv"
    by (simp_all add: interpolate_axes)
  have sx: "sorted ?xs \<and> distinct ?xs \<and> sorted ?ys \<and> distinct ?ys"
    using sorted_distinct_axes [of "dropna_all (agg_mean pd ?recs)"]
    by (simp add: interpolate_axes)
  have setx: "set ?xs = {int m |h m. mean pd (prices_at ?ts ps h m) \<noteq> None}"
    by (simp only: ax set_pcolumns_records)
  have sety: "set ?ys = {int h |h m. mean pd (prices_at ?ts ps h m) \<noteq> None}"
    by (simp only: ax set_index_records)
  have rx: "\<forall>x \<in> set ?xs. \<exists>m. 1 \<le> m \<and> m \<le> 12 \<and> x = int m"
  proof
    fix x
    assume "x \<in> set ?xs"
    then obtain h m where x: "x = int m" and "mean pd (prices_at ?ts ps h m) \<noteq> None"
      unfolding setx by blast
    from prices_at_stamp [OF this(2)] obtain s where "dt_month s = m"
      by blast
    with dt_ranges [of s] x show "\<exists>m. 1 \<le> m \<and> m \<le> 12 \<and> x = int m"
      by blast
  qed
  have ry: "\<forall>y \<in> set ?ys. \<exists>h. h < 24 \<and> y = int h"
  proof
    fix y
    assume "y \<in> set ?ys"
    then obtain h m where y: "y = int h" and "mean pd (prices_at ?ts ps h m) \<noteq> None"
      unfolding sety by blast
    from prices_at_stamp [OF this(2)] obtain s where "dt_hour s = h"
      by blast
    with dt_ranges [of s] y show "\<exists>h. h < 24 \<and> y = int h"
      by blast
  qed
  have sh: "length ?zs = length ?ys \<and> (\<forall>row \<in> set ?zs. length row = length ?xs)"
    using surface_shape [of "Finite 0" pd ?pv] by (simp add: interpolate_axes)
  from dc b sx setx sety rx ry sh show ?thesis
    by blast
qed

lemma ex_three_prepared:
  "get_surface_data ex_pd (Returns ex_three)
     = Inr (prepared_of ex_pd ex_three, Some ''standardized_price'')"
proof -
  have "(case get_surface_data ex_pd (Returns ex_three) of
           Inl e \<Rightarrow> False | Inr (df, pc) \<Rightarrow> pc = Some ''standardized_price'')"
    by code_simp
  then show ?thesis
    by (auto simp: prepared_of_def split: sum.splits)
qed

theorem surface_axes_aligned_witness:
  "get_surface_data ex_pd (Returns ex_three)
     = Inr (prepared_of ex_pd ex_three, Some ''standardized_price'') \<and>
   \<not> empty (prepared_of ex_pd ex_three) \<and>
   distinct (columns ex_three) \<and>
   getitem (prepared_of ex_pd ex_three) (Str ''standardized_price'')
     = Inr (Series (NumCol [Some (Finite 10), Some (Finite 20), Some (Finite 5)])) \<and>
   (\<exists>ts xs ys zs.
     getitem (prepared_of ex_pd ex_three) (Str ''datetime'') = Inr (Series (TimeCol ts)) \<and>
     build_surface_figure ex_pd (prepared_of ex_pd ex_three, Some ''standardized_price'')
       = Inr (Surface xs ys zs) \<and>
     sorted xs \<and> distinct xs \<and>
     set xs = {int m |h m. mean ex_pd (prices_at ts
                 [Some (Finite 10), Some (Finite 20), Some (Finite 5)] h m) \<noteq> None} \<and>
     (\<forall>x \<in> set xs. \<exists>m. 1 \<le> m \<and> m \<le> 12 \<and> x = int m) \<and>
     sorted ys \<and> distinct ys \<and>
     set ys = {int h |h m. mean ex_pd (prices_at ts
                 [Some (Finite 10), Some (Finite 20), Some (Finite 5)] h m) \<noteq> None} \<and>
     (\<forall>y \<in> set ys. \<exists>h. h < 24 \<and> y = int h) \<and>
     length zs = length ys \<and> (\<forall>row \<in> set zs. length row = length xs))"
proof -
  have a: "get_surface_data ex_pd (Returns ex_three)
      = Inr (prepared_of ex_pd ex_three, Some ''standardized_price'')"
    by (rule ex_three_prepared)
  have b: "\<not> empty (prepared_of ex_pd ex_three)"
    by code_simp
  have d: "distinct (columns ex_three)"
    by (simp add: columns_def ex_three_def)
  have c: "getitem (prepared_of ex_pd ex_three) (Str ''standardized_price'')
     = Inr (Series (NumCol [Some (Finite 10), Some (Finite 20), Some (Finite 5)]))"
    by code_simp
  have pv: "price_values (NumCol [Some (Finite 10), Some (Finite 20), Some (Finite 5)])
      = Some [Some (Finite 10), Some (Finite 20), Some (Finite 5)]"
    by simp
  from a b d c surface_axes_aligned [OF a b d c pv] show ?thesis
    by (intro conjI)
qed

text \<open>
  C9 as stated fails. With a price column of strings the prepared table is not empty and
  its price field is resolved, and \<^verbatim>\<open>pivot_table\<close> raises TypeError: there is no figure.
  And a month of the table is not on the x axis when none of its records has a price:
  the table below has a record in February, and the x axis is month 1 alone.
\<close>

theorem surface_axes_fail:
  "get_surface_data ex_pd (Returns ex_text_price)
     = Inr (prepared_of ex_pd ex_text_price, Some ''standardized_price'') \<and>
   \<not> empty (prepared_of ex_pd ex_text_price) \<and>
   build_surface_figure ex_pd (prepared_of ex_pd ex_text_price, Some ''standardized_price'')
     = Inl (Exception ''TypeError'') \<and>
   get_surface_data ex_pd (Returns ex_missing_price)
     = Inr (prepared_of ex_pd ex_missing_price, Some ''standardized_price'') \<and>
   getitem (prepared_of ex_pd ex_missing_price) (Str ''datetime'')
     = Inr (Series (TimeCol [Some (mk_stamp 2024 1 1 0), Some (mk_stamp 2024 1 1 0),
                             Some (mk_stamp 2024 2 1 0)])) \<and>
   dt_month (mk_stamp 2024 2 1 0) = 2 \<and>
   build_surface_figure ex_pd (prepared_of ex_pd ex_missing_price, Some ''standardized_price'')
     = Inr (Surface [1] [0] [[Finite 10]])"
proof (intro conjI)
  have "(case get_surface_data ex_pd (Returns ex_text_price) of
           Inl e \<Rightarrow> False | Inr (df, pc) \<Rightarrow> pc = Some ''standardized_price'')"
    by code_simp
  then show "get_surface_data ex_pd (Returns ex_text_price)
     = Inr (prepared_of ex_pd ex_text_price, Some ''standardized_price'')"
    by (auto simp: prepared_of_def split: sum.splits)
  show "\<not> empty (prepared_of ex_pd ex_text_price)"
    by code_simp
  show "build_surface_figure ex_pd (prepared_of ex_pd ex_text_price, Some ''standardized_price'')
     = Inl (Exception ''TypeError'')"
    by code_simp
  have "(case get_surface_data ex_pd (Returns ex_missing_price) of
           Inl e \<Rightarrow> False | Inr (df, pc) \<Rightarrow> pc = Some ''standardized_price'')"
    by code_simp
  then show "get_surface_data ex_pd (Returns ex_missing_price)
     = Inr (prepared_of ex_pd ex_missing_price, Some ''standardized_price'')"
    by (auto simp: prepared_of_def split: sum.splits)
  show "getitem (prepared_of ex_pd ex_missing_price) (Str ''datetime'')
     = Inr (Series (TimeCol [Some (mk_stamp 2024 1 1 0), Some (mk_stamp 2024 1 1 0),
                             Some (mk_stamp 2024 2 1 0)]))"
    by code_simp
  show "dt_month (mk_stamp 2024 2 1 0) = 2"
    by code_simp
  show "build_surface_figure ex_pd (prepared_of ex_pd ex_missing_price, Some ''standardized_price'')
     = Inr (Surface [1] [0] [[Finite 10]])"
    by code_simp
qed

text \<open>
  C2 (as amended). For a prepared table that is not empty, with distinct column labels
  and a numeric price column, a run of missing cells between two known cells of a month
  column of the pivot is filled with what \<^verbatim>\<open>np.interp\<close> computes in float64 between the
  two known neighbours, the rows taken at their positions (equally spaced, whatever their
  hours), and with 0 when that is NaN; and every month column of the pivot has a known
  cell, so a month with no priced record has no column.
\<close>

theorem interpolation_by_row_position:
  assumes "getitem df (Str ''datetime'') = Inr (Series (TimeCol ts))"
    and "getitem df (Str pc) = Inr (Series pcol)"
    and "price_values pcol = Some ps"
    and "distinct (columns df)"
    and "pc \<noteq> ''month''" and "pc \<noteq> ''hour''"
    and "\<not> empty df"
    and "pv = unstack (dropna_all (agg_mean pd
            (records (map (map_option (\<lambda>s. int (dt_hour s))) ts)
                     (map (map_option (\<lambda>s. int (dt_month s))) ts) ps)))"
    and "j < length (pcolumns pv)"
    and "column_of j (pvalues pv) = l @ Some a # replicate g None @ Some b # r"
    and "t < g"
  shows "\<exists>xs ys zs.
     build_surface_figure pd (df, Some pc) = Inr (Surface xs ys zs) \<and>
     grid_at (Surface xs ys zs) (index pv ! (length l + 1 + t)) (pcolumns pv ! j)
       = Some (case interp_of pd (length l) a (length l + g + 1) b (length l + 1 + t) of
                 None \<Rightarrow> Finite 0
               | Some v \<Rightarrow> v) \<and>
     (\<forall>k < length (pcolumns pv). \<exists>i < length (index pv). pvalues pv ! i ! k \<noteq> None)"
proof -
  let ?recs = "records (map (map_option (\<lambda>s. int (dt_hour s))) ts)
                       (map (map_option (\<lambda>s. int (dt_month s))) ts) ps"
  have b: "build_surface_figure pd (df, Some pc) =
      Inr (Surface (pcolumns (interpolate pd pv)) (index (interpolate pd pv))
            (fillna (Finite 0) (pvalues (interpolate pd pv))))"
    unfolding assms(8) by (rule build_numeric [OF assms(1-7)])
  have d: "distinct (index pv)" "distinct (pcolumns pv)"
    using sorted_distinct_axes [of "dropna_all (agg_mean pd ?recs)"]
    by (simp_all add: assms(8))
  have "length (pvalues pv) = length (index pv)"
    using length_pvalues_unstack [of "dropna_all (agg_mean pd ?recs)"]
    by (simp add: assms(8))
  then have "length (column_of j (pvalues pv)) = length (index pv)"
    by (simp add: length_column_of)
  then have i: "length l + 1 + t < length (index pv)"
    using assms(10,11) by simp
  have grid: "grid_at (Surface (pcolumns (interpolate pd pv)) (index (interpolate pd pv))
            (fillna (Finite 0) (pvalues (interpolate pd pv))))
            (index pv ! (length l + 1 + t)) (pcolumns pv ! j)
       = Some (case interp_of pd (length l) a (length l + g + 1) b (length l + 1 + t) of
                 None \<Rightarrow> Finite 0
               | Some v \<Rightarrow> v)"
    using grid_at_interpolated [OF d i assms(9), of pd "Finite 0"]
      interpolate_col_gap [OF assms(11), of pd l a b r]
    by (simp add: assms(10))
  have obs: "\<forall>k < length (pcolumns pv). \<exists>i < length (index pv). pvalues pv ! i ! k \<noteq> None"
    unfolding assms(8) using pivot_column_observed by blast
  from b grid obs show ?thesis
    by blast
qed

text \<open>
  The example of C2 with a third record in hour 1 of another month: the grid then has a
  row for hour 1, and its cell in month 1 is filled with 15.
\<close>

theorem interpolation_by_row_position_witness:
  "getitem (prepared_of ex_pd ex_three) (Str ''datetime'')
     = Inr (Series (TimeCol [Some (mk_stamp 2024 1 1 0), Some (mk_stamp 2024 1 1 2),
                             Some (mk_stamp 2024 2 1 1)])) \<and>
   getitem (prepared_of ex_pd ex_three) (Str ''standardized_price'')
     = Inr (Series (NumCol [Some (Finite 10), Some (Finite 20), Some (Finite 5)])) \<and>
   distinct (columns (prepared_of ex_pd ex_three)) \<and>
   \<not> empty (prepared_of ex_pd ex_three) \<and>
   column_of 0 (pvalues ex_pivot) = [] @ Some (Finite 10) # replicate 1 None @ Some (Finite 20) # [] \<and>
   (\<exists>xs ys zs.
      build_surface_figure ex_pd (prepared_of ex_pd ex_three, Some ''standardized_price'')
        = Inr (Surface xs ys zs) \<and>
      grid_at (Surface xs ys zs) 1 1 = Some (Finite 15))"
proof -
  let ?ts = "[Some (mk_stamp 2024 1 1 0), Some (mk_stamp 2024 1 1 2), Some (mk_stamp 2024 2 1 1)]"
  let ?ps = "[Some (Finite 10), Some (Finite 20), Some (Finite 5)]"
  have a1: "getitem (prepared_of ex_pd ex_three) (Str ''datetime'') = Inr (Series (TimeCol ?ts))"
    by code_simp
  have a2: "getitem (prepared_of ex_pd ex_three) (Str ''standardized_price'')
     = Inr (Series (NumCol ?ps))"
    by code_simp
  have a3: "price_values (NumCol ?ps) = Some ?ps"
    by simp
  have a4: "distinct (columns (prepared_of ex_pd ex_three))"
    by code_simp
  have a5: "''standardized_price'' \<noteq> ''month''" and a6: "''standardized_price'' \<noteq> ''hour''"
    by simp_all
  have a7: "\<not> empty (prepared_of ex_pd ex_three)"
    by code_simp
  have a8: "ex_pivot = unstack (dropna_all (agg_mean ex_pd
            (records (map (map_option (\<lambda>s. int (dt_hour s))) ?ts)
                     (map (map_option (\<lambda>s. int (dt_month s))) ?ts) ?ps)))"
    by code_simp
  have a9: "0 < length (pcolumns ex_pivot)"
    by (simp add: ex_pivot_def)
  have a10: "column_of 0 (pvalues ex_pivot)
      = [] @ Some (Finite 10) # replicate 1 None @ Some (Finite 20) # []"
    by (simp add: ex_pivot_def column_of_def)
  have a11: "(0 :: nat) < 1"
    by simp
  have i: "index ex_pivot ! (length ([] :: f64 option list) + 1 + 0) = 1"
    and j: "pcolumns ex_pivot ! 0 = 1"
    by (simp_all add: ex_pivot_def)
  have v: "(case interp_of ex_pd (length ([] :: f64 option list)) (Finite 10)
                 (length ([] :: f64 option list) + 1 + 1) (Finite 20)
                 (length ([] :: f64 option list) + 1 + 0) of
              None \<Rightarrow> Finite 0 | Some v \<Rightarrow> v) = Finite 15"
    by (simp add: ex_pd_def)
  from interpolation_by_row_position [OF a1 a2 a3 a4 a5 a6 a7 a8 a9 a10 a11]
  have "\<exists>xs ys zs.
      build_surface_figure ex_pd (prepared_of ex_pd ex_three, Some ''standardized_price'')
        = Inr (Surface xs ys zs) \<and>
      grid_at (Surface xs ys zs) 1 1 = Some (Finite 15)"
    unfolding i j v by blast
  with a1 a2 a4 a7 a10 show ?thesis
    by blast
qed

text \<open>
  C2 as stated fails on its own example: the pivot has a row only for an hour that
  occurs in the records, so the two records give a grid with the rows of hours 0 and 2,
  no cell at hour 1 and no value 15. And the filled value is not on the straight line
  over the hours: with known cells at hours 0 and 5 of January (10 and 20) and a row for
  hour 1, the cell of hour 1 is 15, halfway by position, where the line over the hours
  has 12.
\<close>

theorem interpolation_example_no_row:
  "build_from ex_pd (Returns ex_two) = Inr (Surface [1] [0, 2] [[Finite 10], [Finite 20]]) \<and>
   grid_at (Surface [1] [0, 2] [[Finite 10], [Finite 20]]) 1 1 = None \<and>
   build_from ex_pd (Returns ex_uneven)
     = Inr (Surface [1, 2] [0, 1, 5]
             [[Finite 10, Finite 0], [Finite 15, Finite 5], [Finite 20, Finite 5]]) \<and>
   grid_at (Surface [1, 2] [0, 1, 5]
             [[Finite 10, Finite 0], [Finite 15, Finite 5], [Finite 20, Finite 5]]) 1 1
     = Some (Finite 15) \<and>
   interp_of ex_pd 0 (Finite 10) 5 (Finite 20) 1 = Some (Finite 12)"
proof (intro conjI)
  show "build_from ex_pd (Returns ex_two) = Inr (Surface [1] [0, 2] [[Finite 10], [Finite 20]])"
    by code_simp
  show "grid_at (Surface [1] [0, 2] [[Finite 10], [Finite 20]]) 1 1 = None"
    by code_simp
  show "build_from ex_pd (Returns ex_uneven)
     = Inr (Surface [1, 2] [0, 1, 5]
             [[Finite 10, Finite 0], [Finite 15, Finite 5], [Finite 20, Finite 5]])"
    by code_simp
  show "grid_at (Surface [1, 2] [0, 1, 5]
             [[Finite 10, Finite 0], [Finite 15, Finite 5], [Finite 20, Finite 5]]) 1 1
     = Some (Finite 15)"
    by code_simp
  show "interp_of ex_pd 0 (Finite 10) 5 (Finite 20) 1 = Some (Finite 12)"
    by (simp add: ex_pd_def)
qed

end
